theory Spec2Isabelle
  imports Complex_Main "HOL-Library.AList" "HOL-Library.Char_ord" "HOL-Library.List_Lexorder"
begin

chapter \<open>The model\<close>

section \<open>Core helpers (core.py)\<close>

text \<open>
  Python floats are modelled as real numbers: rounding error, infinities and NaN of
  IEEE arithmetic are outside the model. Python integers are \<open>int\<close>, agent
  identifiers and string-valued enumerations are \<open>string\<close>.
\<close>

definition clamp01 :: "real \<Rightarrow> real" where
  "clamp01 v = max 0 (min 1 v)"

section \<open>Data model (core.py)\<close>

text \<open>
  The dataclasses of core.py as records, field for field. A Python dictionary is an
  association list read with \<open>map_of\<close> (the order of the entries is the iteration
  order of the dictionary). Attributes that the code attaches to an object lazily
  (\<open>_debt_crisis_this_step\<close>, \<open>_collapsed_this_step\<close>) are optional fields:
  \<open>None\<close> is the object without the attribute. \<open>global_reserves\<close> is optional
  because the code tests it against \<open>None\<close>.
\<close>

datatype py_error = ZeroDivisionError | TypeError

text \<open>\<open>d.get(k, default)\<close> on a dictionary.\<close>

definition dict_get :: "('k \<times> 'v) list \<Rightarrow> 'k \<Rightarrow> 'v \<Rightarrow> 'v" where
  "dict_get d k dflt = (case map_of d k of None \<Rightarrow> dflt | Some v \<Rightarrow> v)"

definition CO2_PREINDUSTRIAL_GT :: real where "CO2_PREINDUSTRIAL_GT = 2184"
definition WORLD_PROVEN_RESERVES_ZJ :: real where "WORLD_PROVEN_RESERVES_ZJ = 325 / 10"
definition WORLD_ANNUAL_SUPPLY_CAP_ZJ :: real where "WORLD_ANNUAL_SUPPLY_CAP_ZJ = 65 / 100"

definition RESOURCE_NAMES :: "string list" where
  "RESOURCE_NAMES = [''energy'', ''food'', ''metals'']"

record EconomyState =
  gdp :: real
  capital :: real
  population :: real
  public_debt :: real
  fx_reserves :: real
  taxes :: real
  gov_spending :: real
  social_spending :: real
  military_spending :: real
  rd_spending :: real
  climate_adaptation_spending :: real
  climate_shock_years :: int
  climate_shock_penalty :: real
  interest_payments :: real
  net_exports :: real
  gdp_per_capita :: real
  unemployment :: real
  inflation :: real
  birth_rate :: real
  death_rate :: real

record ResourceSubState =
  own_reserve :: real
  production :: real
  consumption :: real
  efficiency :: real

record CulturalState =
  pdi :: real
  idv :: real
  mas :: real
  uai :: real
  lto :: real
  ind :: real
  survival_self_expression :: real
  traditional_secular :: real
  regime_type :: string

record SocietyState =
  trust_gov :: real
  social_tension :: real
  inequality_gini :: real

record ClimateSubState =
  climate_risk :: real
  co2_annual_emissions :: real
  biodiversity_local :: real

record RiskState =
  water_stress :: real
  regime_stability :: real
  debt_crisis_prone :: real
  conflict_proneness :: real

record TechnologyState =
  tech_level :: real
  military_power :: real
  security_index :: real

record PoliticalState =
  legitimacy :: real
  protest_pressure :: real
  hawkishness :: real
  protectionism :: real
  coalition_openness :: real
  sanction_propensity :: real
  policy_space :: real
  last_block_change :: int

record AgentState =
  agent_id :: string
  economy :: EconomyState
  resources :: "(string \<times> ResourceSubState) list"
  society :: SocietyState
  climate :: ClimateSubState
  culture :: CulturalState
  technology :: TechnologyState
  risk :: RiskState
  alliance_block :: string
  active_sanctions :: "(string \<times> string) list"
  sanction_years :: "(string \<times> int) list"
  political :: PoliticalState
  debt_crisis_this_step :: "bool option"
  collapsed_this_step :: "bool option"

record GlobalState =
  co2 :: real
  temperature_global :: real
  biodiversity_index :: real
  temperature_ocean :: real
  forcing_total :: real
  carbon_pools :: "real list"
  baseline_gdp_pc :: real
  prices :: "(string \<times> real) list"
  global_reserves :: "(string \<times> real) list option"

record RelationState =
  trade_intensity :: real
  trust :: real
  conflict_level :: real
  trade_barrier :: real
  at_war :: bool
  war_years :: int
  war_start_gdp :: real
  war_start_pop :: real
  war_start_resource :: real

record WorldState =
  time :: int
  agents :: "(string \<times> AgentState) list"
  global_state :: GlobalState
  relations :: "(string \<times> (string \<times> RelationState) list) list"

definition effective_trade_intensity :: "RelationState \<Rightarrow> real" where
  "effective_trade_intensity relation =
     max 0 (trade_intensity relation * (1 - clamp01 (trade_barrier relation)))"

text \<open>\<open>world.relations.get(agent_id, {})\<close>: the outgoing edges of an agent.\<close>

definition relations_of :: "WorldState \<Rightarrow> string \<Rightarrow> (string \<times> RelationState) list" where
  "relations_of world aid = (case map_of (relations world) aid of None \<Rightarrow> [] | Some rels \<Rightarrow> rels)"

section \<open>Economic engine (economy.py)\<close>

text \<open>
  \<open>compute_effective_interest_rate\<close>. The local variables \<open>spread\<close> and
  \<open>contagion_spread\<close> are definitions of their own; the loop over the agent's
  relations accumulates \<open>total_weight\<close> and \<open>stress_sum\<close> and skips a partner that is
  not an agent of the world. The parameter \<open>world\<close> may be \<open>None\<close>.
\<close>

definition debt_spread :: "AgentState \<Rightarrow> real" where
  "debt_spread agent =
     (let gdp_floor = max (gdp (economy agent)) (1 / 1000000);
          debt_gdp = public_debt (economy agent) / gdp_floor;
          excess = max 0 (debt_gdp - 6 / 10);
          spread_raw = 3 / 100 * excess + 10 / 100 * excess\<^sup>2;
          fragility = 1 - regime_stability (risk agent)
      in spread_raw * (5 / 10 + 5 / 10 * debt_crisis_prone (risk agent)) * (7 / 10 + 6 / 10 * fragility))"

fun contagion_loop ::
  "WorldState \<Rightarrow> (string \<times> RelationState) list \<Rightarrow> real \<Rightarrow> real \<Rightarrow> real \<times> real" where
  "contagion_loop world [] total_weight stress_sum = (total_weight, stress_sum)"
| "contagion_loop world ((partner_id, rel) # rest) total_weight stress_sum =
     (case map_of (agents world) partner_id of
        None \<Rightarrow> contagion_loop world rest total_weight stress_sum
      | Some partner \<Rightarrow>
          (let partner_gdp = max (gdp (economy partner)) (1 / 1000000);
               partner_debt_gdp = public_debt (economy partner) / partner_gdp;
               partner_excess = max 0 (partner_debt_gdp - 9 / 10);
               partner_stress = partner_excess * debt_crisis_prone (risk partner);
               weight = max 0 (effective_trade_intensity rel)
           in contagion_loop world rest (total_weight + weight) (stress_sum + weight * partner_stress)))"

definition contagion_spread :: "AgentState \<Rightarrow> WorldState option \<Rightarrow> real" where
  "contagion_spread agent world_opt =
     (case world_opt of
        None \<Rightarrow> 0
      | Some world \<Rightarrow>
          (case contagion_loop world (relations_of world (agent_id agent)) 0 0 of
             (total_weight, stress_sum) \<Rightarrow>
               if 0 < total_weight then min (5 / 100) (2 / 100 * (stress_sum / total_weight)) else 0))"

definition compute_effective_interest_rate :: "AgentState \<Rightarrow> WorldState option \<Rightarrow> real" where
  "compute_effective_interest_rate agent world_opt =
     (let base_rate = 2 / 100;
          rate = base_rate + min (debt_spread agent) (25 / 100) + contagion_spread agent world_opt
      in max 0 (min rate (35 / 100)))"

section \<open>Credit rating engine (credit\_rating.py)\<close>

definition GREEN_MAX :: int where "GREEN_MAX = 12"
definition YELLOW_MAX :: int where "YELLOW_MAX = 20"
definition RATING_MIN :: int where "RATING_MIN = 1"
definition RATING_MAX :: int where "RATING_MAX = 26"

definition rating_zone :: "int \<Rightarrow> string" where
  "rating_zone rating =
     (if rating \<le> GREEN_MAX then ''green''
      else if rating \<le> YELLOW_MAX then ''yellow''
      else ''red'')"

text \<open>
  The last combination step of \<open>_credit_risk_components\<close>: the value stored under
  \<open>total_risk_score\<close>, as a function of the five component risks stored beside it.
\<close>

definition total_risk_score :: "real \<Rightarrow> real \<Rightarrow> real \<Rightarrow> real \<Rightarrow> real \<Rightarrow> real" where
  "total_risk_score financial_risk war_risk social_risk sanctions_risk macro_risk =
     clamp01 (0.25 * financial_risk
              + 0.20 * war_risk
              + 0.22 * social_risk
              + 0.13 * sanctions_risk
              + 0.20 * macro_risk)"

text \<open>
  Python 3 \<open>round\<close> with one argument: the nearest integer, a tie going to the even
  neighbour.
\<close>

definition py_round :: "real \<Rightarrow> int" where
  "py_round x =
     (let f = \<lfloor>x\<rfloor>; d = x - of_int f
      in if d < 1 / 2 then f
         else if 1 / 2 < d then f + 1
         else if even f then f else f + 1)"

definition risk_to_rating :: "real \<Rightarrow> int" where
  "risk_to_rating risk_score =
     (let mapped = py_round (of_int RATING_MIN + clamp01 risk_score * of_int (RATING_MAX - RATING_MIN))
      in max RATING_MIN (min RATING_MAX mapped))"

section \<open>Sample states\<close>

text \<open>
  Small concrete states on which the theorems below are evaluated: an indebted country
  with the default values of the dataclasses and of the world factory, and worlds of two
  or three such countries that trade with each other.
\<close>

definition sample_economy :: EconomyState where
  "sample_economy = \<lparr>gdp = 1, capital = 3, population = 1000000, public_debt = 2, fx_reserves = 1 / 10,
     taxes = 0, gov_spending = 0, social_spending = 0, military_spending = 0, rd_spending = 0,
     climate_adaptation_spending = 0, climate_shock_years = 0, climate_shock_penalty = 0,
     interest_payments = 0, net_exports = 0, gdp_per_capita = 1000000, unemployment = 4 / 100,
     inflation = 2 / 100, birth_rate = 12 / 1000, death_rate = 8 / 1000\<rparr>"

definition sample_resources :: "(string \<times> ResourceSubState) list" where
  "sample_resources =
     [(''energy'', \<lparr>own_reserve = 20, production = 100, consumption = 100, efficiency = 1\<rparr>),
      (''food'', \<lparr>own_reserve = 10, production = 50, consumption = 50, efficiency = 1\<rparr>),
      (''metals'', \<lparr>own_reserve = 30, production = 20, consumption = 20, efficiency = 1\<rparr>)]"

definition sample_agent :: "string \<Rightarrow> AgentState" where
  "sample_agent aid = \<lparr>agent_id = aid, economy = sample_economy, resources = sample_resources,
     society = \<lparr>trust_gov = 5 / 10, social_tension = 3 / 10, inequality_gini = 40\<rparr>,
     climate = \<lparr>climate_risk = 3 / 10, co2_annual_emissions = 0, biodiversity_local = 8 / 10\<rparr>,
     culture = \<lparr>pdi = 50, idv = 50, mas = 50, uai = 50, lto = 50, ind = 50,
       survival_self_expression = 5, traditional_secular = 5, regime_type = ''Democracy''\<rparr>,
     technology = \<lparr>tech_level = 1, military_power = 1, security_index = 5 / 10\<rparr>,
     risk = \<lparr>water_stress = 5 / 10, regime_stability = 0, debt_crisis_prone = 1,
       conflict_proneness = 4 / 10\<rparr>,
     alliance_block = ''NonAligned'', active_sanctions = [], sanction_years = [],
     political = \<lparr>legitimacy = 5 / 10, protest_pressure = 0, hawkishness = 5 / 10,
       protectionism = 3 / 10, coalition_openness = 5 / 10, sanction_propensity = 4 / 10,
       policy_space = 5 / 10, last_block_change = - 999\<rparr>,
     debt_crisis_this_step = None, collapsed_this_step = None\<rparr>"

definition sample_relation :: RelationState where
  "sample_relation = \<lparr>trade_intensity = 5 / 10, trust = 6 / 10, conflict_level = 1 / 10,
     trade_barrier = 0, at_war = False, war_years = 0, war_start_gdp = 0, war_start_pop = 0,
     war_start_resource = 0\<rparr>"

definition sample_global :: GlobalState where
  "sample_global = \<lparr>co2 = 3270, temperature_global = 12 / 10, biodiversity_index = 72 / 100,
     temperature_ocean = 8 / 10, forcing_total = 0, carbon_pools = [], baseline_gdp_pc = 1000000,
     prices = [(''energy'', 1), (''food'', 1), (''metals'', 1)],
     global_reserves = Some [(''energy'', 325 / 10), (''food'', 100), (''metals'', 100)]\<rparr>"

definition sample_world :: WorldState where
  "sample_world = \<lparr>time = 0,
     agents = [(''A'', sample_agent ''A''), (''B'', sample_agent ''B'')],
     global_state = sample_global,
     relations = [(''A'', [(''B'', sample_relation)]), (''B'', [(''A'', sample_relation)])]\<rparr>"

definition deviant_agent :: AgentState where
  "deviant_agent = (sample_agent ''A'')\<lparr>risk := \<lparr>water_stress = 5 / 10, regime_stability = 0,
     debt_crisis_prone = - 3, conflict_proneness = 4 / 10\<rparr>\<rparr>"

section \<open>Resource market (v10\_3\_prod/resources.py)\<close>

text \<open>
  \<open>update_resource_stocks\<close>. The keyword parameters are collected in a record; the
  optional dictionaries default as in the first lines of the function. Of the inner
  dictionaries of \<open>energy_alloc\<close> only the entry \<open>prod_cap_zj_per_year\<close> is read, so
  \<open>energy_alloc\<close> maps an agent id to that number. The function raises where Python
  does: the division by \<open>metals_price_ref\<close>, and \<open>max\<close> applied to the complex
  number that a negative base with a fractional exponent produces.
\<close>

record stock_params =
  energy_alloc :: "(string \<times> real) list option"
  regen_params :: "(string \<times> real) list option"
  tech_expansion_params :: "(string \<times> real) list option"
  metals_recycling_rate :: real
  metals_substitution_elasticity :: real
  metals_price_ref :: real

definition default_stock_params :: "(string \<times> real) list option \<Rightarrow> stock_params" where
  "default_stock_params alloc = \<lparr>energy_alloc = alloc, regen_params = None,
     tech_expansion_params = None, metals_recycling_rate = 45 / 100,
     metals_substitution_elasticity = 3 / 10, metals_price_ref = 1\<rparr>"

definition regen_of :: "stock_params \<Rightarrow> (string \<times> real) list" where
  "regen_of P = (case regen_params P of
                   None \<Rightarrow> [(''energy'', 0), (''food'', 2 / 100), (''metals'', 0)]
                 | Some d \<Rightarrow> d)"

definition tech_expansion_of :: "stock_params \<Rightarrow> (string \<times> real) list" where
  "tech_expansion_of P = (case tech_expansion_params P of
                   None \<Rightarrow> [(''energy'', 1 / 100), (''food'', 0), (''metals'', 5 / 1000)]
                 | Some d \<Rightarrow> d)"

text \<open>\<open>b ** e\<close> on floats, as far as \<open>max(0.0, consumption * adjust)\<close> accepts it.\<close>

definition py_float_pow :: "real \<Rightarrow> real \<Rightarrow> py_error + real" where
  "py_float_pow b e =
     (if 0 < b then Inr (b powr e)
      else if b = 0 then (if e < 0 then Inl ZeroDivisionError else if e = 0 then Inr 1 else Inr 0)
      else if e = of_int \<lfloor>e\<rfloor> then Inr (if 0 \<le> e then b ^ nat \<lfloor>e\<rfloor> else 1 / b ^ nat (- \<lfloor>e\<rfloor>))
      else Inl TypeError)"

definition metals_substitution ::
  "stock_params \<Rightarrow> WorldState \<Rightarrow> ResourceSubState \<Rightarrow> py_error + ResourceSubState" where
  "metals_substitution P world resource =
     (let price = dict_get (prices (global_state world)) ''metals'' (metals_price_ref P)
      in if 0 < metals_substitution_elasticity P \<and> 0 < price then
           (if metals_price_ref P = 0 then Inl ZeroDivisionError
            else case py_float_pow (price / metals_price_ref P) (- metals_substitution_elasticity P) of
                   Inl e \<Rightarrow> Inl e
                 | Inr adjust \<Rightarrow> Inr (resource\<lparr>consumption := max 0 (consumption resource * adjust)\<rparr>))
         else Inr resource)"

text \<open>
  The body of the inner loop for one resource that the agent has: the updated resource and
  its \<open>primary_production\<close>.
\<close>

definition update_one_stock ::
  "stock_params \<Rightarrow> WorldState \<Rightarrow> string \<Rightarrow> string \<Rightarrow> ResourceSubState
     \<Rightarrow> py_error + (ResourceSubState \<times> real)" where
  "update_one_stock P world aid resource_name resource0 =
     (case (if resource_name = ''metals'' then metals_substitution P world resource0 else Inr resource0) of
        Inl e \<Rightarrow> Inl e
      | Inr resource \<Rightarrow>
          (let produced =
                 (case (if resource_name = ''energy'' then energy_alloc P else None) of
                    Some alloc \<Rightarrow>
                      (let cap_year = dict_get alloc aid WORLD_ANNUAL_SUPPLY_CAP_ZJ;
                           desired = max 0 (production resource);
                           max_from_reserve = max 0 (own_reserve resource)
                       in min desired (min cap_year max_from_reserve))
                  | None \<Rightarrow> max 0 (production resource));
               primary_production = produced;
               total_production =
                 (if resource_name = ''metals'' then
                    (let recycle_rate = max 0 (min (9 / 10) (metals_recycling_rate P));
                         recycled = recycle_rate * max 0 (consumption resource)
                     in produced + recycled)
                  else produced);
               regen = dict_get (regen_of P) resource_name 0 * max (own_reserve resource) 0;
               tech_expansion = dict_get (tech_expansion_of P) resource_name 0 * max (own_reserve resource) 0;
               new_reserve =
                 (if resource_name = ''food'' then own_reserve resource + regen + tech_expansion
                  else own_reserve resource - primary_production + regen + tech_expansion)
           in Inr (resource\<lparr>own_reserve := max 0 new_reserve, production := total_production\<rparr>,
                   primary_production)))"

fun update_agent_stocks ::
  "stock_params \<Rightarrow> WorldState \<Rightarrow> string \<Rightarrow> string list \<Rightarrow> AgentState \<Rightarrow> (string \<times> real) list
     \<Rightarrow> py_error + (AgentState \<times> (string \<times> real) list)" where
  "update_agent_stocks P world aid [] agent totals = Inr (agent, totals)"
| "update_agent_stocks P world aid (resource_name # names) agent totals =
     (case map_of (resources agent) resource_name of
        None \<Rightarrow> update_agent_stocks P world aid names agent totals
      | Some resource \<Rightarrow>
          (case update_one_stock P world aid resource_name resource of
             Inl e \<Rightarrow> Inl e
           | Inr (resource', primary_production) \<Rightarrow>
               update_agent_stocks P world aid names
                 (agent\<lparr>resources := AList.update resource_name resource' (resources agent)\<rparr>)
                 (AList.update resource_name (dict_get totals resource_name 0 + primary_production) totals)))"

fun update_all_stocks ::
  "stock_params \<Rightarrow> WorldState \<Rightarrow> (string \<times> AgentState) list \<Rightarrow> (string \<times> real) list
     \<Rightarrow> py_error + ((string \<times> AgentState) list \<times> (string \<times> real) list)" where
  "update_all_stocks P world [] totals = Inr ([], totals)"
| "update_all_stocks P world ((aid, agent) # rest) totals =
     (case update_agent_stocks P world aid RESOURCE_NAMES agent totals of
        Inl e \<Rightarrow> Inl e
      | Inr (agent', totals') \<Rightarrow>
          (case update_all_stocks P world rest totals' of
             Inl e \<Rightarrow> Inl e
           | Inr (rest', totals'') \<Rightarrow> Inr ((aid, agent') # rest', totals'')))"

fun update_global_reserves ::
  "stock_params \<Rightarrow> (string \<times> real) list \<Rightarrow> string list \<Rightarrow> (string \<times> real) list \<Rightarrow> (string \<times> real) list" where
  "update_global_reserves P totals [] reserves = reserves"
| "update_global_reserves P totals (resource_name # names) reserves =
     (let global_reserve = dict_get reserves resource_name 0;
          total_production = dict_get totals resource_name 0;
          regen_global = dict_get (regen_of P) resource_name 0 * max global_reserve 0;
          tech_global = dict_get (tech_expansion_of P) resource_name 0 * max global_reserve 0
      in update_global_reserves P totals names
           (AList.update resource_name
              (max 0 (global_reserve - total_production + regen_global + tech_global)) reserves))"

definition update_resource_stocks :: "stock_params \<Rightarrow> WorldState \<Rightarrow> py_error + WorldState" where
  "update_resource_stocks P world =
     (case update_all_stocks P world (agents world) (map (\<lambda>name. (name, 0)) RESOURCE_NAMES) of
        Inl e \<Rightarrow> Inl e
      | Inr (agents', totals) \<Rightarrow>
          (case global_reserves (global_state world) of
             None \<Rightarrow> Inr (world\<lparr>agents := agents'\<rparr>)
           | Some reserves \<Rightarrow>
               Inr (world\<lparr>agents := agents',
                          global_state := (global_state world)
                            \<lparr>global_reserves := Some (update_global_reserves P totals RESOURCE_NAMES reserves)\<rparr>\<rparr>)))"

section \<open>Debt crisis detector (social.py)\<close>

text \<open>
  \<open>check_debt_crisis\<close>. The test of its outer \<open>if\<close> and the body of its inner
  \<open>if\<close> are definitions of their own. \<open>not hasattr(agent, "_debt_crisis_this_step") or
  not agent._debt_crisis_this_step\<close> is \<open>debt_crisis_this_step agent \<noteq> Some True\<close>.
\<close>

definition crisis_condition :: "AgentState \<Rightarrow> WorldState \<Rightarrow> bool" where
  "crisis_condition agent world =
     (let gdp_floor = max (gdp (economy agent)) (1 / 1000000);
          debt_gdp = public_debt (economy agent) / gdp_floor;
          interest_rate = compute_effective_interest_rate agent (Some world)
      in 12 / 10 < debt_gdp \<and> 12 / 100 < interest_rate)"

definition debt_crisis_shock :: "AgentState \<Rightarrow> AgentState" where
  "debt_crisis_shock agent =
     agent\<lparr>debt_crisis_this_step := Some True,
           economy := (economy agent)
             \<lparr>public_debt := public_debt (economy agent) * (6 / 10),
              gdp := gdp (economy agent) * (9 / 10),
              unemployment := min (3 / 10) (unemployment (economy agent) + 5 / 100)\<rparr>,
           society := (society agent)
             \<lparr>trust_gov := max 0 (trust_gov (society agent) - 15 / 100),
              social_tension := min 1 (social_tension (society agent) + 15 / 100)\<rparr>,
           risk := (risk agent)
             \<lparr>regime_stability := max 0 (regime_stability (risk agent) - 15 / 100)\<rparr>\<rparr>"

definition check_debt_crisis :: "AgentState \<Rightarrow> WorldState \<Rightarrow> AgentState" where
  "check_debt_crisis agent world =
     (if crisis_condition agent world then
        (if debt_crisis_this_step agent \<noteq> Some True then debt_crisis_shock agent else agent)
      else if debt_crisis_this_step agent \<noteq> None then agent\<lparr>debt_crisis_this_step := Some False\<rparr>
      else agent)"

text \<open>
  A run of yearly checks of one agent. Between two checks the rest of the simulation
  changes the agent and the world; each step of the run is that change of the agent and the
  world in which the check is then made. The run lists, for every check, the agent before
  it, the world, and the agent after it.
\<close>

fun debt_crisis_checks ::
  "AgentState \<Rightarrow> ((AgentState \<Rightarrow> AgentState) \<times> WorldState) list
     \<Rightarrow> (AgentState \<times> WorldState \<times> AgentState) list" where
  "debt_crisis_checks agent [] = []"
| "debt_crisis_checks agent ((env, world) # rest) =
     (let before = env agent; after = check_debt_crisis before world
      in (before, world, after) # debt_crisis_checks after rest)"

text \<open>Two changes of an agent between checks: repaying all debt, and borrowing anew.\<close>

definition sample_repay :: "AgentState \<Rightarrow> AgentState" where
  "sample_repay a = a\<lparr>economy := (economy a)\<lparr>public_debt := 0\<rparr>\<rparr>"

definition sample_borrow :: "AgentState \<Rightarrow> AgentState" where
  "sample_borrow a = a\<lparr>economy := (economy a)\<lparr>public_debt := 2\<rparr>\<rparr>"

definition sample_steps :: "((AgentState \<Rightarrow> AgentState) \<times> WorldState) list" where
  "sample_steps = [(\<lambda>a. a, sample_world), (\<lambda>a. a, sample_world),
                   (sample_repay, sample_world), (sample_borrow, sample_world)]"

section \<open>Actions (core.py)\<close>

text \<open>
  The action dataclasses. The fields of the small classes (\<open>target\<close>, \<open>type\<close>,
  \<open>level\<close>, \<open>partner\<close>, ...) and \<open>agent_id\<close> and \<open>time\<close> of \<open>Action\<close> carry
  the name of their class here.
\<close>

record TradeDeal =
  deal_partner :: string
  deal_resource :: string
  deal_direction :: string
  deal_volume_change :: real
  deal_price_preference :: string

record TradeRestriction =
  restriction_target :: string
  restriction_level :: string
  restriction_reason :: string

record SanctionsAction =
  sanction_target :: string
  sanction_type :: string
  sanction_reason :: string

record SecurityActions =
  security_type :: string
  security_target :: "string option"

record DomesticPolicy =
  tax_fuel_change :: real
  social_spending_change :: real
  military_spending_change :: real
  rd_investment_change :: real
  climate_policy :: string

record ForeignPolicy =
  proposed_trade_deals :: "TradeDeal list"
  sanctions_actions :: "SanctionsAction list"
  trade_restrictions :: "TradeRestriction list"
  security_actions :: SecurityActions

record FinancePolicy =
  borrow_from_global_markets :: real
  use_fx_reserves_change :: real

record Action =
  action_agent_id :: string
  action_time :: int
  domestic_policy :: DomesticPolicy
  foreign_policy :: ForeignPolicy
  finance :: FinancePolicy
  explanation :: string

text \<open>
  \<open>str.strip()\<close>: leading and trailing whitespace removed. A character here is an
  8-bit code, read as the code point of that number, so the whitespace is what
  \<open>str.isspace\<close> accepts below 256: the codes 9 to 13, 28 to 32, 133 (U+0085) and
  160 (U+00A0). Strings with code points from 256 on are outside the model.
\<close>

definition py_isspace :: "char \<Rightarrow> bool" where
  "py_isspace c =
     (let n = (of_char c :: nat)
      in (9 \<le> n \<and> n \<le> 13) \<or> (28 \<le> n \<and> n \<le> 32) \<or> n = 133 \<or> n = 160)"

definition py_strip :: "string \<Rightarrow> string" where
  "py_strip s = rev (dropWhile py_isspace (rev (dropWhile py_isspace s)))"

section \<open>Sanction resolution (political\_dynamics.py)\<close>

fun intent_map_sanctions_loop ::
  "SanctionsAction list \<Rightarrow> (string \<times> string) list \<Rightarrow> (string \<times> string) list" where
  "intent_map_sanctions_loop [] intents = intents"
| "intent_map_sanctions_loop (sanction # rest) intents =
     (let target = py_strip (sanction_target sanction)
      in if target = [] then intent_map_sanctions_loop rest intents
         else (let current = dict_get intents target ''none''
               in if sanction_type sanction = ''strong'' \<or> current = ''strong''
                  then intent_map_sanctions_loop rest (AList.update target ''strong'' intents)
                  else if sanction_type sanction = ''mild'' \<or> current = ''mild''
                  then intent_map_sanctions_loop rest (AList.update target ''mild'' intents)
                  else intent_map_sanctions_loop rest intents))"

definition intent_map_sanctions :: "Action option \<Rightarrow> (string \<times> string) list" where
  "intent_map_sanctions action =
     (case action of
        None \<Rightarrow> []
      | Some a \<Rightarrow> intent_map_sanctions_loop (sanctions_actions (foreign_policy a)) [])"

definition sanction_support :: "AgentState \<Rightarrow> AgentState \<Rightarrow> RelationState \<Rightarrow> string \<Rightarrow> real" where
  "sanction_support actor target relation intent_type =
     (let base0 = 4 / 10 * sanction_propensity (political actor)
                  + 3 / 10 * conflict_level relation
                  + 3 / 10 * (1 - trust relation);
          base1 = (if intent_type = ''strong'' then base0 + 10 / 100
                   else if intent_type = ''mild'' then base0 + 5 / 100
                   else base0);
          base2 = (if alliance_block actor \<noteq> ''NonAligned''
                      \<and> alliance_block actor = alliance_block target then base1 * (6 / 10)
                   else if alliance_block actor \<noteq> alliance_block target then base1 + 5 / 100
                   else base1)
      in clamp01 base2)"

definition desired_sanction_type :: "real \<Rightarrow> string" where
  "desired_sanction_type support =
     (if support < 35 / 100 then ''none''
      else if support < 65 / 100 then ''mild''
      else ''strong'')"

definition min_duration :: int where "min_duration = 2"

text \<open>
  The dictionary \<open>severity\<close> of \<open>resolve_sanctions\<close>. It is only read at
  \<open>none\<close>, \<open>mild\<close> and \<open>strong\<close>: the values of the intent map and of
  \<open>_desired_sanction_type\<close>.
\<close>

definition severity :: "string \<Rightarrow> int" where
  "severity s = (if s = ''none'' then 0 else if s = ''mild'' then 1 else 2)"

text \<open>
  The body of the loop over \<open>targets\<close> for one target: \<open>None\<close> when the target gets
  no entry in \<open>new_active\<close> and \<open>new_years\<close>, otherwise the sanction type and the
  years written there. \<open>kept\<close> is the last \<open>if\<close> of the body, which keeps an existing
  sanction with a positive counter and counts it down.
\<close>

definition resolve_sanction_target ::
  "WorldState \<Rightarrow> string \<Rightarrow> AgentState \<Rightarrow> (string \<times> string) list \<Rightarrow> string
     \<Rightarrow> (string \<times> int) option" where
  "resolve_sanction_target world actor_id actor intents target_id =
     (if target_id = actor_id then None
      else if map_of (agents world) target_id = None then None
      else
        (let intent_type = dict_get intents target_id ''none'';
             existing_type = map_of (active_sanctions actor) target_id;
             existing_years = dict_get (sanction_years actor) target_id 0;
             kept = (case existing_type of
                       None \<Rightarrow> None
                     | Some ty \<Rightarrow> if ty \<noteq> [] \<and> 0 < existing_years
                                 then Some (ty, existing_years - 1) else None)
         in if intent_type \<noteq> ''none'' then
              (case (map_of (relations_of world actor_id) target_id, map_of (agents world) target_id) of
                 (Some relation, Some target) \<Rightarrow>
                   (let support = sanction_support actor target relation intent_type;
                        desired0 = (if 35 / 100 \<le> support then desired_sanction_type support else ''none'');
                        desired =
                          (if desired0 \<noteq> ''none'' then
                             (let desired1 = (if intent_type \<noteq> ''strong'' \<and> desired0 = ''strong''
                                              then ''mild'' else desired0)
                              in if severity desired1 < severity intent_type then intent_type else desired1)
                           else desired0)
                    in if desired \<noteq> ''none'' then Some (desired, max existing_years min_duration)
                       else kept)
               | _ \<Rightarrow> None)
            else kept))"

text \<open>
  The loop over \<open>targets\<close>, the union of the keys of the intents and of the active
  sanctions. Python iterates a set in an order of its own; here the keys of the intents come
  first. Each target is resolved from the state before the loop, so only the order of the
  entries of the two new dictionaries depends on it.
\<close>

fun resolve_sanctions_loop ::
  "WorldState \<Rightarrow> string \<Rightarrow> AgentState \<Rightarrow> (string \<times> string) list \<Rightarrow> string list
     \<Rightarrow> (string \<times> string) list \<Rightarrow> (string \<times> int) list
     \<Rightarrow> (string \<times> string) list \<times> (string \<times> int) list" where
  "resolve_sanctions_loop world actor_id actor intents [] new_active new_years = (new_active, new_years)"
| "resolve_sanctions_loop world actor_id actor intents (target_id # rest) new_active new_years =
     (case resolve_sanction_target world actor_id actor intents target_id of
        None \<Rightarrow> resolve_sanctions_loop world actor_id actor intents rest new_active new_years
      | Some (ty, years) \<Rightarrow>
          resolve_sanctions_loop world actor_id actor intents rest
            (AList.update target_id ty new_active) (AList.update target_id years new_years))"

definition resolve_sanctions_actor ::
  "WorldState \<Rightarrow> (string \<times> Action) list \<Rightarrow> string \<Rightarrow> AgentState \<Rightarrow> AgentState" where
  "resolve_sanctions_actor world actions actor_id actor =
     (let intents = intent_map_sanctions (map_of actions actor_id);
          targets = remdups (map fst intents @ map fst (active_sanctions actor))
      in case resolve_sanctions_loop world actor_id actor intents targets [] [] of
           (new_active, new_years) \<Rightarrow>
             actor\<lparr>active_sanctions := new_active, sanction_years := new_years\<rparr>)"

definition resolve_sanctions :: "WorldState \<Rightarrow> (string \<times> Action) list \<Rightarrow> WorldState" where
  "resolve_sanctions world actions =
     world\<lparr>agents := map (\<lambda>(actor_id, actor). (actor_id, resolve_sanctions_actor world actions actor_id actor))
                         (agents world)\<rparr>"

text \<open>
  A run of calls of \<open>resolve_sanctions\<close>: before each call the rest of the simulation
  changes the world, and the call gets the actions of that year.
\<close>

fun sanction_run ::
  "((WorldState \<Rightarrow> WorldState) \<times> (string \<times> Action) list) list \<Rightarrow> WorldState \<Rightarrow> WorldState" where
  "sanction_run [] world = world"
| "sanction_run ((env, actions) # rest) world = sanction_run rest (resolve_sanctions (env world) actions)"

text \<open>
  What the rest of the simulation leaves alone between two calls: the actor's
  \<open>active_sanctions\<close> and \<open>sanction_years\<close> (only \<open>resolve_sanctions\<close> assigns them)
  and the presence of the target among the agents.
\<close>

definition sanction_bystander :: "(WorldState \<Rightarrow> WorldState) \<Rightarrow> string \<Rightarrow> string \<Rightarrow> bool" where
  "sanction_bystander env actor t =
     ((\<forall>w a. map_of (agents w) actor = Some a \<longrightarrow>
          (\<exists>a'. map_of (agents (env w)) actor = Some a'
                \<and> active_sanctions a' = active_sanctions a
                \<and> sanction_years a' = sanction_years a))
      \<and> (\<forall>w. map_of (agents w) t \<noteq> None \<longrightarrow> map_of (agents (env w)) t \<noteq> None))"

definition no_sanction_intent :: "(string \<times> Action) list \<Rightarrow> string \<Rightarrow> string \<Rightarrow> bool" where
  "no_sanction_intent actions actor t =
     (dict_get (intent_map_sanctions (map_of actions actor)) t ''none'' = ''none'')"

text \<open>
  Actions for the sample worlds: country A proposes one sanction against country B and
  nothing else; a world in which A and B trust each other more.
\<close>

definition sample_action :: "string \<Rightarrow> SanctionsAction list \<Rightarrow> Action" where
  "sample_action aid sanctions = \<lparr>action_agent_id = aid, action_time = 0,
     domestic_policy = \<lparr>tax_fuel_change = 0, social_spending_change = 0,
       military_spending_change = 0, rd_investment_change = 0, climate_policy = ''none''\<rparr>,
     foreign_policy = \<lparr>proposed_trade_deals = [], sanctions_actions = sanctions,
       trade_restrictions = [],
       security_actions = \<lparr>security_type = ''none'', security_target = None\<rparr>\<rparr>,
     finance = \<lparr>borrow_from_global_markets = 0, use_fx_reserves_change = 0\<rparr>,
     explanation = []\<rparr>"

definition mild_actions :: "(string \<times> Action) list" where
  "mild_actions = [(''A'', sample_action ''A''
     [\<lparr>sanction_target = ''B'', sanction_type = ''mild'', sanction_reason = []\<rparr>])]"

definition strong_actions :: "(string \<times> Action) list" where
  "strong_actions = [(''A'', sample_action ''A''
     [\<lparr>sanction_target = ''B'', sanction_type = ''strong'', sanction_reason = []\<rparr>])]"

definition friendly_world :: WorldState where
  "friendly_world = sample_world\<lparr>relations :=
     [(''A'', [(''B'', sample_relation\<lparr>trust := 9 / 10\<rparr>)]),
      (''B'', [(''A'', sample_relation\<lparr>trust := 9 / 10\<rparr>)])]\<rparr>"

text \<open>The same world after A has imposed a mild sanction on B, two years of it remaining.\<close>

definition sanctioning_agent :: AgentState where
  "sanctioning_agent = (sample_agent ''A'')\<lparr>active_sanctions := [(''B'', ''mild'')],
     sanction_years := [(''B'', 2)]\<rparr>"

definition grudge_world :: WorldState where
  "grudge_world = friendly_world\<lparr>agents := [(''A'', sanctioning_agent), (''B'', sample_agent ''B'')]\<rparr>"

section \<open>Climate engine (climate.py)\<close>

text \<open>
  \<open>update_global_climate\<close>. A time-constant is a float that may be \<open>math.inf\<close>:
  \<open>Infinite\<close> stands for the values that \<open>math.isfinite\<close> rejects. The keyword
  parameters are collected in a record. The function raises \<open>TypeError\<close> when an agent
  has a negative population: \<open>population ** 0.3\<close> is then a complex number, which the
  comparison \<open>total_weight > 0\<close> rejects.
\<close>

datatype timescale = Finite real | Infinite

definition GTCO2_PER_PPM :: real where "GTCO2_PER_PPM = 781 / 100"
definition F2XCO2_W_M2 :: real where "F2XCO2_W_M2 = 371 / 100"
definition TGLOBAL_2023_C :: real where "TGLOBAL_2023_C = 12 / 10"
definition ECS_MIN :: real where "ECS_MIN = 15 / 10"
definition ECS_MAX :: real where "ECS_MAX = 4"

definition CARBON_POOL_FRACTIONS :: "real list" where
  "CARBON_POOL_FRACTIONS = [2173 / 10000, 2240 / 10000, 2824 / 10000, 2763 / 10000]"

definition CARBON_POOL_TIMESCALES :: "timescale list" where
  "CARBON_POOL_TIMESCALES = [Infinite, Finite (3944 / 10), Finite (3654 / 100), Finite (4304 / 1000)]"

record climate_params =
  dt :: real
  ecs :: real
  f_nonco2 :: real
  heat_cap_surface :: real
  heat_cap_deep :: real
  ocean_exchange :: real
  carbon_pool_fractions :: "real list"
  carbon_pool_timescales :: "timescale list"

definition default_climate_params :: climate_params where
  "default_climate_params = \<lparr>dt = 1, ecs = 3, f_nonco2 = 0, heat_cap_surface = 20,
     heat_cap_deep = 100, ocean_exchange = 7 / 10,
     carbon_pool_fractions = CARBON_POOL_FRACTIONS,
     carbon_pool_timescales = CARBON_POOL_TIMESCALES\<rparr>"

definition climate_resilience :: "AgentState \<Rightarrow> real" where
  "climate_resilience agent =
     (let tech_res = clamp01 (tech_level (technology agent) / 2);
          gdp_floor = max (gdp (economy agent)) (1 / 1000000);
          adapt_spend = climate_adaptation_spending (economy agent);
          adapt_share = max 0 adapt_spend / gdp_floor;
          adapt_res = clamp01 (adapt_share / (3 / 100))
      in clamp01 (40 / 100 * regime_stability (risk agent)
                  + 30 / 100 * tech_res
                  + 15 / 100 * trust_gov (society agent)
                  + 15 / 100 * adapt_res))"

definition normalize_fractions :: "real list \<Rightarrow> real list" where
  "normalize_fractions fractions =
     (let total = sum_list fractions
      in if total \<le> 0 then [1] else map (\<lambda>f. f / total) fractions)"

definition init_carbon_pools :: "GlobalState \<Rightarrow> real list \<Rightarrow> real list" where
  "init_carbon_pools g fractions =
     (let excess = max 0 (co2 g - CO2_PREINDUSTRIAL_GT) in map (\<lambda>frac. excess * frac) fractions)"

text \<open>The list \<open>timescales\<close> after it is padded with \<open>math.inf\<close> or cut to the fractions.\<close>

definition fit_timescales :: "timescale list \<Rightarrow> nat \<Rightarrow> timescale list" where
  "fit_timescales timescales n =
     (if length timescales < n then timescales @ replicate (n - length timescales) Infinite
      else if n < length timescales then take n timescales
      else timescales)"

definition pool_decay :: "real \<Rightarrow> timescale \<Rightarrow> real" where
  "pool_decay step tau =
     (case tau of
        Infinite \<Rightarrow> 1
      | Finite t \<Rightarrow> if t \<le> 0 then 1 else exp (- step / t))"

definition total_emissions_of :: "WorldState \<Rightarrow> real" where
  "total_emissions_of world = sum_list (map (\<lambda>(aid, agent). co2_annual_emissions (climate agent)) (agents world))"

text \<open>
  Lines 96 to 121: the carbon cycle. The new pools and the new \<open>co2\<close> are written to the
  global state.
\<close>

definition carbon_cycle :: "climate_params \<Rightarrow> WorldState \<Rightarrow> GlobalState" where
  "carbon_cycle P world =
     (let total_emissions = total_emissions_of world;
          fractions = normalize_fractions (carbon_pool_fractions P);
          timescales = fit_timescales (carbon_pool_timescales P) (length fractions);
          g = global_state world;
          pools = (if length (carbon_pools g) \<noteq> length fractions
                   then init_carbon_pools g fractions else carbon_pools g);
          new_pools = map (\<lambda>(pool, frac, tau). pool * pool_decay (dt P) tau + frac * total_emissions)
                          (zip pools (zip fractions timescales))
      in g\<lparr>carbon_pools := new_pools,
            co2 := max (CO2_PREINDUSTRIAL_GT + sum_list new_pools) CO2_PREINDUSTRIAL_GT\<rparr>)"

text \<open>Lines 123 to 137: forcing and the two temperature layers.\<close>

definition energy_balance :: "climate_params \<Rightarrow> GlobalState \<Rightarrow> GlobalState" where
  "energy_balance P g =
     (let c_ppm = max (1 / 1000000) (co2 g / GTCO2_PER_PPM);
          c0_ppm = CO2_PREINDUSTRIAL_GT / GTCO2_PER_PPM;
          f_co2 = 535 / 100 * ln (c_ppm / c0_ppm);
          f_total = f_co2 + f_nonco2 P;
          ecs_clamped = min (max ECS_MIN (ecs P)) ECS_MAX;
          climate_feedback = F2XCO2_W_M2 / ecs_clamped;
          t_surface = temperature_global g;
          t_ocean = temperature_ocean g;
          dts = (f_total - climate_feedback * t_surface - ocean_exchange P * (t_surface - t_ocean))
                * (dt P / max (heat_cap_surface P) (1 / 1000000));
          dtd = ocean_exchange P * (t_surface - t_ocean) * dt P / max (heat_cap_deep P) (1 / 1000000)
      in g\<lparr>forcing_total := f_total,
            temperature_global := t_surface + dts,
            temperature_ocean := t_ocean + dtd\<rparr>)"

text \<open>Lines 139 to 146: the population-weighted biodiversity index.\<close>

fun biodiversity_sums :: "(string \<times> AgentState) list \<Rightarrow> real \<Rightarrow> real \<Rightarrow> py_error + (real \<times> real)" where
  "biodiversity_sums [] total_weight weighted_bio = Inr (total_weight, weighted_bio)"
| "biodiversity_sums ((aid, agent) # rest) total_weight weighted_bio =
     (case py_float_pow (population (economy agent)) (3 / 10) of
        Inl e \<Rightarrow> Inl e
      | Inr weight \<Rightarrow>
          biodiversity_sums rest (total_weight + weight)
            (weighted_bio + biodiversity_local (climate agent) * weight))"

text \<open>Lines 148 to 153: local biodiversity degrades with warming.\<close>

definition degrade_biodiversity :: "real \<Rightarrow> AgentState \<Rightarrow> AgentState" where
  "degrade_biodiversity temp_increase agent =
     (let resilience = climate_resilience agent;
          effective_risk = clamp01 (climate_risk (climate agent)) * (1 - 60 / 100 * resilience);
          degradation = 4 / 1000 * max 0 temp_increase * effective_risk
      in agent\<lparr>climate := (climate agent)
           \<lparr>biodiversity_local := max 0 (biodiversity_local (climate agent) - degradation)\<rparr>\<rparr>)"

definition update_global_climate :: "climate_params \<Rightarrow> WorldState \<Rightarrow> py_error + WorldState" where
  "update_global_climate P world =
     (let g1 = energy_balance P (carbon_cycle P world)
      in case biodiversity_sums (agents world) 0 0 of
           Inl e \<Rightarrow> Inl e
         | Inr (total_weight, weighted_bio) \<Rightarrow>
             (let g2 = (if 0 < total_weight then g1\<lparr>biodiversity_index := weighted_bio / total_weight\<rparr>
                        else g1);
                  temp_increase = temperature_global g2 - TGLOBAL_2023_C
              in Inr (world\<lparr>global_state := g2,
                             agents := map (\<lambda>(aid, agent). (aid, degrade_biodiversity temp_increase agent))
                                           (agents world)\<rparr>)))"

text \<open>\<open>n\<close> calls in a row, stopping at the first one that raises.\<close>

fun climate_run :: "climate_params \<Rightarrow> nat \<Rightarrow> WorldState \<Rightarrow> py_error + WorldState" where
  "climate_run P 0 world = Inr world"
| "climate_run P (Suc n) world =
     (case update_global_climate P world of
        Inl e \<Rightarrow> Inl e
      | Inr world' \<Rightarrow> climate_run P n world')"

text \<open>
  The list \<open>pools\<close> that the loop of the carbon cycle starts from (lines 105 to 108): the
  stored pools, or the pools initialised from \<open>co2\<close> when the stored list has not one pool
  per fraction, as in a world fresh from the factory, whose list is empty. The time-constants
  of the loop are the given ones fitted to the number of fractions.
\<close>

definition starting_pools :: "climate_params \<Rightarrow> GlobalState \<Rightarrow> real list" where
  "starting_pools P g =
     (let fractions = normalize_fractions (carbon_pool_fractions P)
      in if length (carbon_pools g) \<noteq> length fractions
         then init_carbon_pools g fractions else carbon_pools g)"

definition fitted_timescales :: "climate_params \<Rightarrow> timescale list" where
  "fitted_timescales P =
     fit_timescales (carbon_pool_timescales P) (length (normalize_fractions (carbon_pool_fractions P)))"

text \<open>
  Two inputs for the carbon cycle: a world read from a table in which country A has
  \<open>co2_annual_emissions\<close> of -5000, and the call
  \<open>update_global_climate(world, carbon_pool_timescales=(-1.0, 394.4, 36.54, 4.304))\<close>.
\<close>

definition net_sink_world :: WorldState where
  "net_sink_world = sample_world\<lparr>agents :=
     [(''A'', (sample_agent ''A'')\<lparr>climate := \<lparr>climate_risk = 3 / 10,
          co2_annual_emissions = - 5000, biodiversity_local = 8 / 10\<rparr>\<rparr>),
      (''B'', sample_agent ''B'')]\<rparr>"

definition negative_tau_params :: climate_params where
  "negative_tau_params = default_climate_params\<lparr>carbon_pool_timescales :=
     [Finite (- 1), Finite (3944 / 10), Finite (3654 / 100), Finite (4304 / 1000)]\<rparr>"

section \<open>War continuation (geopolitics.py)\<close>














text \<open>
  The call \<open>update_resource_stocks(world, regen_params={"food": -0.5})\<close>: the caller
  passes a negative regeneration rate for food.
\<close>

definition shrinking_food_params :: stock_params where
  "shrinking_food_params = (default_stock_params None)\<lparr>regen_params := Some [(''food'', - (1 / 2))]\<rparr>"






chapter \<open>Properties\<close>

section \<open>Properties of the credit rating engine\<close>

lemma clamp01_mono: "a \<le> b \<Longrightarrow> clamp01 a \<le> clamp01 b"
  by (simp add: clamp01_def max_def min_def)

lemma clamp01_range: "0 \<le> clamp01 v \<and> clamp01 v \<le> 1"
  by (simp add: clamp01_def max_def min_def)

lemma py_round_bounds: "\<lfloor>x\<rfloor> \<le> py_round x \<and> py_round x \<le> \<lfloor>x\<rfloor> + 1"
  by (simp add: py_round_def Let_def)

lemma py_round_mono:
  assumes "x \<le> y"
  shows "py_round x \<le> py_round y"
proof (cases "\<lfloor>x\<rfloor> = \<lfloor>y\<rfloor>")
  case True
  with assms show ?thesis
    by (simp add: py_round_def Let_def)
next
  case False
  from assms have "\<lfloor>x\<rfloor> \<le> \<lfloor>y\<rfloor>" by (rule floor_mono)
  with False have "\<lfloor>x\<rfloor> + 1 \<le> \<lfloor>y\<rfloor>" by simp
  with py_round_bounds [of x] py_round_bounds [of y] show ?thesis by linarith
qed

lemma total_risk_score_mono:
  assumes "f \<le> f'" "w \<le> w'" "s \<le> s'" "sa \<le> sa'" "m \<le> m'"
  shows "total_risk_score f w s sa m \<le> total_risk_score f' w' s' sa' m'"
  unfolding total_risk_score_def using assms by (intro clamp01_mono) simp

lemma risk_to_rating_mono:
  assumes "r \<le> r'"
  shows "risk_to_rating r \<le> risk_to_rating r'"
proof -
  have "clamp01 r \<le> clamp01 r'" using assms by (rule clamp01_mono)
  then have "of_int RATING_MIN + clamp01 r * of_int (RATING_MAX - RATING_MIN)
      \<le> of_int RATING_MIN + clamp01 r' * real_of_int (RATING_MAX - RATING_MIN)"
    by (simp add: RATING_MIN_def RATING_MAX_def)
  then have "py_round (of_int RATING_MIN + clamp01 r * of_int (RATING_MAX - RATING_MIN))
      \<le> py_round (of_int RATING_MIN + clamp01 r' * of_int (RATING_MAX - RATING_MIN))"
    by (rule py_round_mono)
  then show ?thesis
    by (simp add: risk_to_rating_def Let_def max_def min_def)
qed

lemma risk_to_rating_range: "1 \<le> risk_to_rating r \<and> risk_to_rating r \<le> 26"
  by (simp add: risk_to_rating_def Let_def RATING_MIN_def RATING_MAX_def max_def min_def)

text \<open>
  Claim C3. The total credit risk score is monotone non-decreasing in each of the five
  component risks (financial, war, social, sanctions, macro) with the other four held
  fixed; the weights of the components are 0.25, 0.20, 0.22, 0.13 and 0.20; the map from
  score to rating is non-decreasing and lands in the integers 1..26; the zone is green for
  a rating of at most 12, yellow for a rating of at most 20 and red otherwise.
\<close>

theorem credit_rating_monotone:
  "(f \<le> f' \<longrightarrow> total_risk_score f w s sa m \<le> total_risk_score f' w s sa m)
   \<and> (w \<le> w' \<longrightarrow> total_risk_score f w s sa m \<le> total_risk_score f w' s sa m)
   \<and> (s \<le> s' \<longrightarrow> total_risk_score f w s sa m \<le> total_risk_score f w s' sa m)
   \<and> (sa \<le> sa' \<longrightarrow> total_risk_score f w s sa m \<le> total_risk_score f w s sa' m)
   \<and> (m \<le> m' \<longrightarrow> total_risk_score f w s sa m \<le> total_risk_score f w s sa m')
   \<and> total_risk_score f w s sa m
        = clamp01 (25 / 100 * f + 20 / 100 * w + 22 / 100 * s + 13 / 100 * sa + 20 / 100 * m)
   \<and> (r \<le> r' \<longrightarrow> risk_to_rating r \<le> risk_to_rating r')
   \<and> 1 \<le> risk_to_rating r \<and> risk_to_rating r \<le> 26
   \<and> rating_zone n = (if n \<le> 12 then ''green'' else if n \<le> 20 then ''yellow'' else ''red'')"
proof -
  have weights: "total_risk_score f w s sa m
        = clamp01 (25 / 100 * f + 20 / 100 * w + 22 / 100 * s + 13 / 100 * sa + 20 / 100 * m)"
    by (simp add: total_risk_score_def)
  have zone: "rating_zone n = (if n \<le> 12 then ''green'' else if n \<le> 20 then ''yellow'' else ''red'')"
    by (simp add: rating_zone_def GREEN_MAX_def YELLOW_MAX_def)
  show ?thesis
    using weights zone risk_to_rating_range [of r] risk_to_rating_mono [of r r']
      total_risk_score_mono [of f f' w w s s sa sa m m]
      total_risk_score_mono [of f f w w' s s sa sa m m]
      total_risk_score_mono [of f f w w s s' sa sa m m]
      total_risk_score_mono [of f f w w s s sa sa' m m]
      total_risk_score_mono [of f f w w s s sa sa m m']
    by blast
qed

theorem credit_rating_monotone_witness:
  "total_risk_score (2 / 10) (1 / 10) (3 / 10) 0 (5 / 10) \<le> total_risk_score (6 / 10) (1 / 10) (3 / 10) 0 (5 / 10)
   \<and> total_risk_score (2 / 10) (1 / 10) (3 / 10) 0 (5 / 10) \<le> total_risk_score (2 / 10) (4 / 10) (3 / 10) 0 (5 / 10)
   \<and> total_risk_score (2 / 10) (1 / 10) (3 / 10) 0 (5 / 10) \<le> total_risk_score (2 / 10) (1 / 10) (9 / 10) 0 (5 / 10)
   \<and> total_risk_score (2 / 10) (1 / 10) (3 / 10) 0 (5 / 10) \<le> total_risk_score (2 / 10) (1 / 10) (3 / 10) 1 (5 / 10)
   \<and> total_risk_score (2 / 10) (1 / 10) (3 / 10) 0 (5 / 10) \<le> total_risk_score (2 / 10) (1 / 10) (3 / 10) 0 (7 / 10)
   \<and> risk_to_rating (3 / 10) \<le> risk_to_rating (7 / 10)
   \<and> rating_zone 12 = ''green'' \<and> rating_zone 20 = ''yellow'' \<and> rating_zone 21 = ''red''"
  using credit_rating_monotone [of "2 / 10" "6 / 10" "1 / 10" "3 / 10" 0 "5 / 10" "4 / 10" "9 / 10" 1 "7 / 10" "3 / 10" "7 / 10" 12]
    credit_rating_monotone [of 0 0 0 0 0 0 0 0 0 0 0 0 20]
    credit_rating_monotone [of 0 0 0 0 0 0 0 0 0 0 0 0 21]
  by simp

section \<open>Properties of the effective interest rate\<close>

lemma debt_spread_nonneg:
  assumes "0 \<le> debt_crisis_prone (risk agent)" "regime_stability (risk agent) \<le> 1"
  shows "0 \<le> debt_spread agent"
  using assms by (simp add: debt_spread_def Let_def)

lemma contagion_loop_nonneg:
  assumes "\<forall>(pid, p) \<in> set (agents world). 0 \<le> debt_crisis_prone (risk p)"
    and "0 \<le> tw" "0 \<le> ss"
  shows "0 \<le> fst (contagion_loop world rels tw ss) \<and> 0 \<le> snd (contagion_loop world rels tw ss)"
  using assms(2,3)
proof (induction rels arbitrary: tw ss)
  case Nil
  then show ?case by simp
next
  case (Cons pr rest)
  obtain partner_id rel where pr: "pr = (partner_id, rel)" by (cases pr)
  show ?case
  proof (cases "map_of (agents world) partner_id")
    case None
    with Cons pr show ?thesis by simp
  next
    case (Some partner)
    then have "(partner_id, partner) \<in> set (agents world)" by (rule map_of_SomeD)
    with assms(1) have prone: "0 \<le> debt_crisis_prone (risk partner)" by auto
    let ?w = "max 0 (effective_trade_intensity rel)"
    let ?st = "max 0 (public_debt (economy partner) / max (gdp (economy partner)) (1 / 1000000) - 9 / 10)
                 * debt_crisis_prone (risk partner)"
    have "0 \<le> ?w" by simp
    moreover have "0 \<le> ?st" using prone by simp
    ultimately have "0 \<le> tw + ?w" "0 \<le> ss + ?w * ?st" using Cons.prems by simp_all
    from Cons.IH [OF this] show ?thesis using pr Some by (simp add: Let_def)
  qed
qed

lemma contagion_spread_nonneg:
  assumes "\<forall>world. world_opt = Some world \<longrightarrow>
             (\<forall>(pid, p) \<in> set (agents world). 0 \<le> debt_crisis_prone (risk p))"
  shows "0 \<le> contagion_spread agent world_opt"
proof (cases world_opt)
  case None
  then show ?thesis by (simp add: contagion_spread_def)
next
  case (Some world)
  with assms have "\<forall>(pid, p) \<in> set (agents world). 0 \<le> debt_crisis_prone (risk p)" by simp
  from contagion_loop_nonneg [OF this, of 0 0 "relations_of world (agent_id agent)"]
  show ?thesis using Some
    by (auto simp: contagion_spread_def split: prod.splits)
qed

lemma contagion_spread_cap: "contagion_spread agent world_opt \<le> 5 / 100"
  by (auto simp: contagion_spread_def split: option.splits prod.splits)

lemma interest_rate_upper: "compute_effective_interest_rate agent world_opt \<le> 35 / 100"
  by (simp add: compute_effective_interest_rate_def Let_def max_def min_def)

lemma interest_rate_floor_zero: "0 \<le> compute_effective_interest_rate agent world_opt"
  by (simp add: compute_effective_interest_rate_def Let_def max_def min_def)

text \<open>
  Claim C9, as the code has it. When the agent's \<open>debt_crisis_prone\<close> is not negative,
  its \<open>regime_stability\<close> is at most 1 and no agent of the world has a negative
  \<open>debt_crisis_prone\<close> (all three hold for fields in their range [0,1]), the debt spread
  and the contagion spread are not negative, the contagion spread is at most 0.05, and the
  rate is 0.02 plus the spread capped at 0.25 plus the contagion spread, capped at 0.35:
  a value in [0.02, 0.35]. For every state whatsoever the rate lies in [0, 0.35].
\<close>

theorem interest_rate_bounds:
  assumes "0 \<le> debt_crisis_prone (risk agent)"
    and "regime_stability (risk agent) \<le> 1"
    and "\<forall>world. world_opt = Some world \<longrightarrow>
           (\<forall>(pid, p) \<in> set (agents world). 0 \<le> debt_crisis_prone (risk p))"
  shows "2 / 100 \<le> compute_effective_interest_rate agent world_opt
       \<and> compute_effective_interest_rate agent world_opt \<le> 35 / 100
       \<and> 0 \<le> debt_spread agent
       \<and> 0 \<le> contagion_spread agent world_opt
       \<and> contagion_spread agent world_opt \<le> 5 / 100
       \<and> compute_effective_interest_rate agent world_opt
           = min (2 / 100 + min (debt_spread agent) (25 / 100) + contagion_spread agent world_opt) (35 / 100)
       \<and> (\<forall>a w. 0 \<le> compute_effective_interest_rate a w \<and> compute_effective_interest_rate a w \<le> 35 / 100)"
proof -
  have s: "0 \<le> debt_spread agent" using assms(1,2) by (rule debt_spread_nonneg)
  have c: "0 \<le> contagion_spread agent world_opt" using assms(3) by (rule contagion_spread_nonneg)
  have eq: "compute_effective_interest_rate agent world_opt
           = min (2 / 100 + min (debt_spread agent) (25 / 100) + contagion_spread agent world_opt) (35 / 100)"
    using s c by (simp add: compute_effective_interest_rate_def Let_def max_def min_def)
  have lo: "2 / 100 \<le> compute_effective_interest_rate agent world_opt"
    using s c unfolding eq by (simp add: min_def)
  show ?thesis
    using s c eq lo contagion_spread_cap [of agent world_opt]
      interest_rate_upper interest_rate_floor_zero by blast
qed

theorem interest_rate_bounds_witness:
  "0 \<le> debt_crisis_prone (risk (sample_agent ''A''))
   \<and> regime_stability (risk (sample_agent ''A'')) \<le> 1
   \<and> 0 \<le> debt_crisis_prone (risk (sample_agent ''B''))
   \<and> 2 / 100 \<le> compute_effective_interest_rate (sample_agent ''A'') (Some sample_world)
   \<and> compute_effective_interest_rate (sample_agent ''A'') (Some sample_world) \<le> 35 / 100
   \<and> compute_effective_interest_rate (sample_agent ''A'') (Some sample_world) = 292 / 1000"
proof -
  have h1: "0 \<le> debt_crisis_prone (risk (sample_agent ''A''))"
    by (simp add: sample_agent_def)
  have h2: "regime_stability (risk (sample_agent ''A'')) \<le> 1"
    by (simp add: sample_agent_def)
  have h3: "\<forall>(pid, p) \<in> set (agents sample_world). 0 \<le> debt_crisis_prone (risk p)"
    by (simp add: sample_world_def sample_agent_def)
  then have h3': "\<forall>world. Some sample_world = Some world \<longrightarrow>
           (\<forall>(pid, p) \<in> set (agents world). 0 \<le> debt_crisis_prone (risk p))"
    by simp
  have spread: "debt_spread (sample_agent ''A'') = 3094 / 10000"
    by (simp add: debt_spread_def sample_agent_def sample_economy_def Let_def power2_eq_square)
  have contagion: "contagion_spread (sample_agent ''A'') (Some sample_world) = 22 / 1000"
    by (simp add: contagion_spread_def relations_of_def sample_world_def sample_agent_def
        sample_economy_def sample_relation_def effective_trade_intensity_def clamp01_def Let_def)
  show ?thesis
    using interest_rate_bounds [OF h1 h2 h3'] h1 h2 spread contagion
    by (simp add: sample_agent_def)
qed

theorem interest_rate_below_base_counterexample:
  "compute_effective_interest_rate deviant_agent None < 2 / 100
   \<and> debt_spread deviant_agent < 0"
proof -
  have spread: "debt_spread deviant_agent = - (3094 / 10000)"
    by (simp add: debt_spread_def deviant_agent_def sample_agent_def sample_economy_def Let_def
        power2_eq_square)
  then show ?thesis
    by (simp add: compute_effective_interest_rate_def contagion_spread_def Let_def)
qed

section \<open>Properties of the resource stocks\<close>

lemma dict_get_update:
  "dict_get (AList.update k v d) k' dflt = (if k' = k then v else dict_get d k' dflt)"
  by (simp add: dict_get_def update_conv')

lemma update_one_stock_food:
  assumes "update_one_stock P world aid ''food'' food = Inr (food', primary)"
  shows "own_reserve food' =
           max 0 (own_reserve food
                  + dict_get (regen_of P) ''food'' 0 * max (own_reserve food) 0
                  + dict_get (tech_expansion_of P) ''food'' 0 * max (own_reserve food) 0)"
  using assms by (auto simp: update_one_stock_def Let_def)

lemma update_agent_stocks_other:
  assumes "update_agent_stocks P world aid names agent totals = Inr (agent', totals')"
    and "name \<notin> set names"
  shows "map_of (resources agent') name = map_of (resources agent) name"
  using assms
proof (induction names arbitrary: agent totals)
  case Nil
  then show ?case by simp
next
  case (Cons n names)
  show ?case
  proof (cases "map_of (resources agent) n")
    case None
    with Cons show ?thesis by simp
  next
    case (Some resource)
    from Cons.prems(1) Some obtain resource' p where
      one: "update_one_stock P world aid n resource = Inr (resource', p)"
      and rest: "update_agent_stocks P world aid names
                   (agent\<lparr>resources := AList.update n resource' (resources agent)\<rparr>)
                   (AList.update n (dict_get totals n 0 + p) totals) = Inr (agent', totals')"
      by (auto split: sum.splits)
    from Cons.IH [OF rest] Cons.prems(2)
    show ?thesis by (simp add: update_conv')
  qed
qed

lemma update_agent_stocks_food_steps:
  assumes "update_agent_stocks P world aid names agent totals = Inr (agent', totals')"
    and "map_of (resources agent) ''food'' = Some food"
    and "distinct names"
  shows "\<exists>food'. map_of (resources agent') ''food'' = Some food'
           \<and> (''food'' \<notin> set names \<longrightarrow> food' = food)
           \<and> (''food'' \<in> set names \<longrightarrow> own_reserve food' =
               max 0 (own_reserve food
                      + dict_get (regen_of P) ''food'' 0 * max (own_reserve food) 0
                      + dict_get (tech_expansion_of P) ''food'' 0 * max (own_reserve food) 0))"
  using assms
proof (induction names arbitrary: agent totals)
  case Nil
  then show ?case by simp
next
  case (Cons n names)
  show ?case
  proof (cases "map_of (resources agent) n")
    case None
    with Cons.prems(2) have "n \<noteq> ''food''" by auto
    moreover from Cons.prems(1) None
    have "update_agent_stocks P world aid names agent totals = Inr (agent', totals')" by simp
    from Cons.IH [OF this Cons.prems(2)] Cons.prems(3)
    have "\<exists>food'. map_of (resources agent') ''food'' = Some food'
           \<and> (''food'' \<notin> set names \<longrightarrow> food' = food)
           \<and> (''food'' \<in> set names \<longrightarrow> own_reserve food' =
               max 0 (own_reserve food
                      + dict_get (regen_of P) ''food'' 0 * max (own_reserve food) 0
                      + dict_get (tech_expansion_of P) ''food'' 0 * max (own_reserve food) 0))"
      by simp
    ultimately show ?thesis by auto
  next
    case (Some resource)
    from Cons.prems(1) Some obtain resource' p where
      one: "update_one_stock P world aid n resource = Inr (resource', p)"
      and rest: "update_agent_stocks P world aid names
                   (agent\<lparr>resources := AList.update n resource' (resources agent)\<rparr>)
                   (AList.update n (dict_get totals n 0 + p) totals) = Inr (agent', totals')"
      by (auto split: sum.splits)
    show ?thesis
    proof (cases "n = ''food''")
      case True
      with Some Cons.prems(2) have "resource = food" by simp
      with one True have own: "own_reserve resource' =
               max 0 (own_reserve food
                      + dict_get (regen_of P) ''food'' 0 * max (own_reserve food) 0
                      + dict_get (tech_expansion_of P) ''food'' 0 * max (own_reserve food) 0)"
        using update_one_stock_food by blast
      from True Cons.prems(3) have "''food'' \<notin> set names" by simp
      from update_agent_stocks_other [OF rest this] True
      have "map_of (resources agent') ''food'' = Some resource'"
        by (simp add: update_conv')
      with own True show ?thesis by simp
    next
      case False
      with Cons.prems(2)
      have "map_of (resources (agent\<lparr>resources := AList.update n resource' (resources agent)\<rparr>)) ''food''
              = Some food"
        by (simp add: update_conv')
      from Cons.IH [OF rest this] Cons.prems(3) False show ?thesis by auto
    qed
  qed
qed

lemma update_agent_stocks_food:
  assumes run: "update_agent_stocks P world aid RESOURCE_NAMES agent totals = Inr (agent', totals')"
    and food: "map_of (resources agent) ''food'' = Some food"
  shows "\<exists>food'. map_of (resources agent') ''food'' = Some food'
           \<and> own_reserve food' =
               max 0 (own_reserve food
                      + dict_get (regen_of P) ''food'' 0 * max (own_reserve food) 0
                      + dict_get (tech_expansion_of P) ''food'' 0 * max (own_reserve food) 0)"
proof -
  have "distinct RESOURCE_NAMES" "''food'' \<in> set RESOURCE_NAMES"
    by (simp_all add: RESOURCE_NAMES_def)
  with update_agent_stocks_food_steps [OF run food] show ?thesis by blast
qed

lemma update_all_stocks_lookup:
  assumes "update_all_stocks P world ags totals = Inr (ags', totals')"
    and "map_of ags aid = Some agent"
  shows "\<exists>agent' t t'. map_of ags' aid = Some agent'
           \<and> update_agent_stocks P world aid RESOURCE_NAMES agent t = Inr (agent', t')"
  using assms
proof (induction ags arbitrary: totals ags' totals')
  case Nil
  then show ?case by simp
next
  case (Cons entry rest)
  obtain k a where entry: "entry = (k, a)" by (cases entry)
  from Cons.prems(1) entry obtain a' t1 rest' where
    one: "update_agent_stocks P world k RESOURCE_NAMES a totals = Inr (a', t1)"
    and more: "update_all_stocks P world rest t1 = Inr (rest', totals')"
    and ags': "ags' = (k, a') # rest'"
    by (auto split: sum.splits)
  show ?case
  proof (cases "k = aid")
    case True
    with Cons.prems(2) entry have "a = agent" by simp
    with one True ags' show ?thesis by auto
  next
    case False
    with Cons.prems(2) entry have "map_of rest aid = Some agent" by simp
    from Cons.IH [OF more this] False ags' show ?thesis by auto
  qed
qed

lemma metals_substitution_returns:
  assumes "0 < metals_price_ref P"
  shows "\<exists>r. metals_substitution P world resource = Inr r"
  using assms by (simp add: metals_substitution_def py_float_pow_def Let_def)

lemma update_one_stock_returns:
  assumes "0 < metals_price_ref P"
  shows "\<exists>r p. update_one_stock P world aid name resource = Inr (r, p)"
proof -
  from metals_substitution_returns [OF assms] obtain r where
    "metals_substitution P world resource = Inr r" by blast
  then show ?thesis by (simp add: update_one_stock_def Let_def)
qed

lemma update_agent_stocks_returns:
  assumes "0 < metals_price_ref P"
  shows "\<exists>a t. update_agent_stocks P world aid names agent totals = Inr (a, t)"
proof (induction names arbitrary: agent totals)
  case Nil
  then show ?case by simp
next
  case (Cons n names)
  show ?case
  proof (cases "map_of (resources agent) n")
    case None
    with Cons show ?thesis by simp
  next
    case (Some resource)
    from update_one_stock_returns [OF assms] obtain r p where
      "update_one_stock P world aid n resource = Inr (r, p)" by blast
    with Some Cons.IH show ?thesis by simp
  qed
qed

lemma update_all_stocks_returns:
  assumes "0 < metals_price_ref P"
  shows "\<exists>ags' t. update_all_stocks P world ags totals = Inr (ags', t)"
proof (induction ags arbitrary: totals)
  case Nil
  then show ?case by simp
next
  case (Cons entry rest)
  obtain k a where entry: "entry = (k, a)" by (cases entry)
  from update_agent_stocks_returns [OF assms] obtain a' t1 where
    one: "update_agent_stocks P world k RESOURCE_NAMES a totals = Inr (a', t1)" by blast
  from Cons.IH obtain rest' t2 where "update_all_stocks P world rest t1 = Inr (rest', t2)" by blast
  with one entry show ?case by simp
qed

lemma update_resource_stocks_returns:
  assumes "0 < metals_price_ref P"
  shows "\<exists>world'. update_resource_stocks P world = Inr world'"
proof -
  from update_all_stocks_returns [OF assms] obtain ags' t where
    "update_all_stocks P world (agents world) (map (\<lambda>name. (name, 0)) RESOURCE_NAMES) = Inr (ags', t)"
    by blast
  then show ?thesis by (simp add: update_resource_stocks_def split: option.splits)
qed

lemma update_resource_stocks_food:
  assumes "update_resource_stocks P world = Inr world'"
    and "map_of (agents world) aid = Some agent"
    and "map_of (resources agent) ''food'' = Some food"
  shows "\<exists>agent' food'. map_of (agents world') aid = Some agent'
           \<and> map_of (resources agent') ''food'' = Some food'
           \<and> own_reserve food' =
               max 0 (own_reserve food
                      + dict_get (regen_of P) ''food'' 0 * max (own_reserve food) 0
                      + dict_get (tech_expansion_of P) ''food'' 0 * max (own_reserve food) 0)"
proof -
  from assms(1) obtain ags' totals where
    all: "update_all_stocks P world (agents world) (map (\<lambda>name. (name, 0)) RESOURCE_NAMES) = Inr (ags', totals)"
    and ags': "agents world' = ags'"
    by (auto simp: update_resource_stocks_def split: sum.splits option.splits)
  from update_all_stocks_lookup [OF all assms(2)] obtain agent' t t' where
    look: "map_of ags' aid = Some agent'"
    and run: "update_agent_stocks P world aid RESOURCE_NAMES agent t = Inr (agent', t')" by blast
  from update_agent_stocks_food [OF run assms(3)] look ags' show ?thesis by auto
qed

text \<open>
  Claim C10, as the code has it. The regeneration and technology-expansion rates are
  parameters of \<open>update_resource_stocks\<close>. When those of food are not negative (the
  defaults are 0.02 and 0), a call that returns leaves every agent's food \<open>own_reserve\<close>
  at least as large as before: food production is not subtracted, the reserve becomes the
  old reserve plus the regeneration and technology-expansion terms, floored at zero. With a
  negative rate the reserve falls.
\<close>

theorem food_reserve_never_decreases:
  assumes "0 \<le> dict_get (regen_of P) ''food'' 0"
    and "0 \<le> dict_get (tech_expansion_of P) ''food'' 0"
    and "update_resource_stocks P world = Inr world'"
    and "map_of (agents world) aid = Some agent"
    and "map_of (resources agent) ''food'' = Some food"
  shows "\<exists>agent' food'. map_of (agents world') aid = Some agent'
           \<and> map_of (resources agent') ''food'' = Some food'
           \<and> own_reserve food \<le> own_reserve food'
           \<and> own_reserve food' =
               max 0 (own_reserve food
                      + dict_get (regen_of P) ''food'' 0 * max (own_reserve food) 0
                      + dict_get (tech_expansion_of P) ''food'' 0 * max (own_reserve food) 0)"
proof -
  from update_resource_stocks_food [OF assms(3-5)] obtain agent' food' where
    look: "map_of (agents world') aid = Some agent'"
    and f: "map_of (resources agent') ''food'' = Some food'"
    and eq: "own_reserve food' =
               max 0 (own_reserve food
                      + dict_get (regen_of P) ''food'' 0 * max (own_reserve food) 0
                      + dict_get (tech_expansion_of P) ''food'' 0 * max (own_reserve food) 0)" by blast
  have "0 \<le> dict_get (regen_of P) ''food'' 0 * max (own_reserve food) 0"
    using assms(1) by simp
  moreover have "0 \<le> dict_get (tech_expansion_of P) ''food'' 0 * max (own_reserve food) 0"
    using assms(2) by simp
  ultimately have "own_reserve food \<le> own_reserve food'" unfolding eq by linarith
  with look f eq show ?thesis by blast
qed

theorem food_reserve_never_decreases_witness:
  "\<exists>world'. update_resource_stocks (default_stock_params None) sample_world = Inr world'
     \<and> (\<exists>agent' food'. map_of (agents world') ''A'' = Some agent'
           \<and> map_of (resources agent') ''food'' = Some food'
           \<and> (10::real) \<le> own_reserve food'
           \<and> own_reserve food' = 102 / 10)"
proof -
  let ?P = "default_stock_params None"
  have ref: "0 < metals_price_ref ?P" by (simp add: default_stock_params_def)
  from update_resource_stocks_returns [OF ref] obtain world' where
    run: "update_resource_stocks ?P sample_world = Inr world'" by blast
  have h1: "0 \<le> dict_get (regen_of ?P) ''food'' 0"
    by (simp add: regen_of_def default_stock_params_def dict_get_def)
  have h2: "0 \<le> dict_get (tech_expansion_of ?P) ''food'' 0"
    by (simp add: tech_expansion_of_def default_stock_params_def dict_get_def)
  have h4: "map_of (agents sample_world) ''A'' = Some (sample_agent ''A'')"
    by (simp add: sample_world_def)
  have h5: "map_of (resources (sample_agent ''A'')) ''food''
              = Some \<lparr>own_reserve = 10, production = 50, consumption = 50, efficiency = 1\<rparr>"
    by (simp add: sample_agent_def sample_resources_def)
  from food_reserve_never_decreases [OF h1 h2 run h4 h5] run
  show ?thesis
    by (simp add: regen_of_def tech_expansion_of_def default_stock_params_def dict_get_def)
qed

theorem food_reserve_falls_counterexample:
  "map_option own_reserve (map_of (resources (sample_agent ''A'')) ''food'') = Some 10
   \<and> (case update_resource_stocks shrinking_food_params sample_world of
         Inl e \<Rightarrow> False
       | Inr world' \<Rightarrow>
           map_option (\<lambda>a. map_option own_reserve (map_of (resources a) ''food''))
             (map_of (agents world') ''A'') = Some (Some 5))"
proof -
  let ?P = "shrinking_food_params"
  have ref: "0 < metals_price_ref ?P"
    by (simp add: shrinking_food_params_def default_stock_params_def)
  from update_resource_stocks_returns [OF ref] obtain world' where
    run: "update_resource_stocks ?P sample_world = Inr world'" by blast
  have h4: "map_of (agents sample_world) ''A'' = Some (sample_agent ''A'')"
    by (simp add: sample_world_def)
  have h5: "map_of (resources (sample_agent ''A'')) ''food''
              = Some \<lparr>own_reserve = 10, production = 50, consumption = 50, efficiency = 1\<rparr>"
    by (simp add: sample_agent_def sample_resources_def)
  have regen: "dict_get (regen_of ?P) ''food'' 0 = - (1 / 2)"
    by (simp add: regen_of_def shrinking_food_params_def dict_get_def)
  have tech: "dict_get (tech_expansion_of ?P) ''food'' 0 = 0"
    by (simp add: tech_expansion_of_def shrinking_food_params_def default_stock_params_def dict_get_def)
  from update_resource_stocks_food [OF run h4 h5] run h5 show ?thesis
    by (auto simp: regen tech)
qed

section \<open>Properties of the debt crisis detector\<close>

lemma check_debt_crisis_flag:
  "debt_crisis_this_step (check_debt_crisis b w) = Some True \<longleftrightarrow> crisis_condition b w"
  by (auto simp: check_debt_crisis_def debt_crisis_shock_def)

lemma length_debt_crisis_checks: "length (debt_crisis_checks a steps) = length steps"
  by (induction steps arbitrary: a) (auto simp: Let_def)

lemma debt_crisis_checks_nth:
  assumes "\<forall>(env, w) \<in> set steps. \<forall>a. debt_crisis_this_step (env a) = debt_crisis_this_step a"
    and "i < length steps"
    and "debt_crisis_checks a0 steps ! i = (b, w, c)"
  shows "c = check_debt_crisis b w
       \<and> debt_crisis_this_step b =
           (if i = 0 then debt_crisis_this_step a0
            else debt_crisis_this_step (snd (snd (debt_crisis_checks a0 steps ! (i - 1)))))"
  using assms
proof (induction steps arbitrary: a0 i)
  case Nil
  then show ?case by simp
next
  case (Cons step rest)
  obtain env world where step: "step = (env, world)" by (cases step)
  from Cons.prems(1) step have env: "\<forall>a. debt_crisis_this_step (env a) = debt_crisis_this_step a"
    and pres: "\<forall>(env, w) \<in> set rest. \<forall>a. debt_crisis_this_step (env a) = debt_crisis_this_step a"
    by auto
  let ?after = "check_debt_crisis (env a0) world"
  have unfold: "debt_crisis_checks a0 (step # rest)
                  = (env a0, world, ?after) # debt_crisis_checks ?after rest"
    using step by (simp add: Let_def)
  show ?case
  proof (cases i)
    case 0
    with Cons.prems(3) unfold env show ?thesis by auto
  next
    case (Suc j)
    with Cons.prems(2) have j: "j < length rest" by simp
    from Cons.prems(3) Suc unfold have nth: "debt_crisis_checks ?after rest ! j = (b, w, c)" by simp
    from Cons.IH [OF pres j nth]
    have c: "c = check_debt_crisis b w"
      and flag: "debt_crisis_this_step b =
           (if j = 0 then debt_crisis_this_step ?after
            else debt_crisis_this_step (snd (snd (debt_crisis_checks ?after rest ! (j - 1)))))"
      by simp_all
    have "debt_crisis_this_step b
            = debt_crisis_this_step (snd (snd (debt_crisis_checks a0 (step # rest) ! (i - 1))))"
    proof (cases j)
      case 0
      with flag Suc unfold show ?thesis by simp
    next
      case (Suc k)
      with flag \<open>i = Suc j\<close> unfold show ?thesis by simp
    qed
    with c Suc show ?thesis by simp
  qed
qed

text \<open>
  Claim C8. In a run of yearly checks of an agent whose flag is not set at the start, with
  the rest of the simulation never touching the flag: a check at which the crisis condition
  (debt/gdp above 1.2 and effective interest rate above 0.12) holds applies the debt-crisis
  shock when it is the first check of the run or the condition was false at the check
  before, and leaves the agent as it is when the condition also held at the check before.
  So a contiguous sequence of checks with the condition true gets exactly one shock, at
  its first check, and a sequence that begins after the condition was false gets a shock of
  its own. The shock cuts the debt to 60\% and gdp to 90\%, raises unemployment by 0.05
  up to 0.3, lowers trust and regime stability by 0.15 down to 0 and raises tension by 0.15
  up to 1. A check at which the condition is false changes nothing but the flag.
\<close>

theorem debt_crisis_once_per_period:
  assumes "\<forall>(env, w) \<in> set steps. \<forall>a. debt_crisis_this_step (env a) = debt_crisis_this_step a"
    and "debt_crisis_this_step a0 \<noteq> Some True"
    and "i < length steps"
    and "debt_crisis_checks a0 steps ! i = (b, w, c)"
    and "0 < i \<Longrightarrow> debt_crisis_checks a0 steps ! (i - 1) = (b', w', c')"
  shows "(crisis_condition b w \<and> (i = 0 \<or> \<not> crisis_condition b' w') \<longrightarrow>
            c = debt_crisis_shock b
            \<and> public_debt (economy c) = public_debt (economy b) * (6 / 10)
            \<and> gdp (economy c) = gdp (economy b) * (9 / 10)
            \<and> unemployment (economy c) = min (3 / 10) (unemployment (economy b) + 5 / 100)
            \<and> trust_gov (society c) = max 0 (trust_gov (society b) - 15 / 100)
            \<and> social_tension (society c) = min 1 (social_tension (society b) + 15 / 100)
            \<and> regime_stability (risk c) = max 0 (regime_stability (risk b) - 15 / 100))
       \<and> (crisis_condition b w \<and> 0 < i \<and> crisis_condition b' w' \<longrightarrow> c = b)
       \<and> (\<not> crisis_condition b w \<longrightarrow>
            economy c = economy b \<and> society c = society b \<and> risk c = risk b
            \<and> debt_crisis_this_step c \<noteq> Some True)"
proof -
  from debt_crisis_checks_nth [OF assms(1,3,4)]
  have c: "c = check_debt_crisis b w"
    and flag: "debt_crisis_this_step b =
           (if i = 0 then debt_crisis_this_step a0
            else debt_crisis_this_step (snd (snd (debt_crisis_checks a0 steps ! (i - 1)))))"
    by simp_all
  have prev: "0 < i \<Longrightarrow> (debt_crisis_this_step b = Some True \<longleftrightarrow> crisis_condition b' w')"
  proof -
    assume pos: "0 < i"
    then have "i - 1 < length steps" using assms(3) by simp
    from debt_crisis_checks_nth [OF assms(1) this assms(5) [OF pos]]
    have "c' = check_debt_crisis b' w'" by simp
    moreover from flag pos assms(5) have "debt_crisis_this_step b = debt_crisis_this_step c'" by simp
    ultimately show ?thesis using check_debt_crisis_flag by simp
  qed
  have first: "crisis_condition b w \<and> (i = 0 \<or> \<not> crisis_condition b' w') \<longrightarrow> c = debt_crisis_shock b"
    using c flag prev assms(2) by (cases "i = 0") (auto simp: check_debt_crisis_def)
  have later: "crisis_condition b w \<and> 0 < i \<and> crisis_condition b' w' \<longrightarrow> c = b"
    using c prev by (auto simp: check_debt_crisis_def)
  have off: "\<not> crisis_condition b w \<longrightarrow>
            economy c = economy b \<and> society c = society b \<and> risk c = risk b
            \<and> debt_crisis_this_step c \<noteq> Some True"
    using c by (auto simp: check_debt_crisis_def)
  have shock: "c = debt_crisis_shock b \<longrightarrow>
            public_debt (economy c) = public_debt (economy b) * (6 / 10)
            \<and> gdp (economy c) = gdp (economy b) * (9 / 10)
            \<and> unemployment (economy c) = min (3 / 10) (unemployment (economy b) + 5 / 100)
            \<and> trust_gov (society c) = max 0 (trust_gov (society b) - 15 / 100)
            \<and> social_tension (society c) = min 1 (social_tension (society b) + 15 / 100)
            \<and> regime_stability (risk c) = max 0 (regime_stability (risk b) - 15 / 100)"
    by (simp add: debt_crisis_shock_def)
  from first later off shock show ?thesis by blast
qed

theorem debt_crisis_once_per_period_witness:
  "(let run = debt_crisis_checks (sample_agent ''A'') sample_steps
    in crisis_condition (fst (run ! 0)) sample_world
       \<and> snd (snd (run ! 0)) = debt_crisis_shock (fst (run ! 0))
       \<and> crisis_condition (fst (run ! 1)) sample_world
       \<and> snd (snd (run ! 1)) = fst (run ! 1)
       \<and> \<not> crisis_condition (fst (run ! 2)) sample_world
       \<and> crisis_condition (fst (run ! 3)) sample_world
       \<and> snd (snd (run ! 3)) = debt_crisis_shock (fst (run ! 3))
       \<and> public_debt (economy (snd (snd (run ! 3)))) = 12 / 10)"
proof -
  let ?a0 = "sample_agent ''A''"
  let ?W = "sample_world"
  let ?run = "debt_crisis_checks ?a0 sample_steps"
  define a1 where "a1 = debt_crisis_shock ?a0"
  define b2 where "b2 = sample_repay a1"
  define a2 where "a2 = b2\<lparr>debt_crisis_this_step := Some False\<rparr>"
  define b3 where "b3 = sample_borrow a2"
  have contagion: "\<And>a. agent_id a = ''A'' \<Longrightarrow> contagion_spread a (Some ?W) = 22 / 1000"
    by (simp add: contagion_spread_def relations_of_def sample_world_def sample_agent_def
        sample_economy_def sample_relation_def effective_trade_intensity_def clamp01_def Let_def)
  have id1: "agent_id ?a0 = ''A''" "agent_id a1 = ''A''" "agent_id b2 = ''A''" "agent_id b3 = ''A''"
    by (simp_all add: a1_def b2_def a2_def b3_def sample_agent_def debt_crisis_shock_def
        sample_repay_def sample_borrow_def)
  have e0: "gdp (economy ?a0) = 1" "public_debt (economy ?a0) = 2"
    by (simp_all add: sample_agent_def sample_economy_def)
  have e1: "gdp (economy a1) = 9 / 10" "public_debt (economy a1) = 12 / 10"
    by (simp_all add: a1_def debt_crisis_shock_def e0)
  have e2: "public_debt (economy b2) = 0"
    by (simp add: b2_def sample_repay_def)
  have e3: "gdp (economy b3) = 9 / 10" "public_debt (economy b3) = 2"
    by (simp_all add: b3_def a2_def b2_def sample_borrow_def sample_repay_def e1)
  have k0: "regime_stability (risk ?a0) = 0" "debt_crisis_prone (risk ?a0) = 1"
    by (simp_all add: sample_agent_def)
  have k1: "regime_stability (risk a1) = 0" "debt_crisis_prone (risk a1) = 1"
    by (simp_all add: a1_def debt_crisis_shock_def k0)
  have k3: "regime_stability (risk b3) = 0" "debt_crisis_prone (risk b3) = 1"
    by (simp_all add: b3_def a2_def b2_def sample_borrow_def sample_repay_def k1)
  have s0: "debt_spread ?a0 = 3094 / 10000"
    by (simp add: debt_spread_def e0 k0 Let_def power2_eq_square)
  have s1: "debt_spread a1 = 4433 / 45000"
    by (simp add: debt_spread_def e1 k1 Let_def power2_eq_square)
  have s3: "25 / 100 < debt_spread b3"
    by (simp add: debt_spread_def e3 k3 Let_def power2_eq_square)
  have cond0: "crisis_condition ?a0 ?W"
    by (simp add: crisis_condition_def compute_effective_interest_rate_def contagion [OF id1(1)]
        s0 e0 Let_def)
  have cond1: "crisis_condition a1 ?W"
    by (simp add: crisis_condition_def compute_effective_interest_rate_def contagion [OF id1(2)]
        s1 e1 Let_def)
  have cond2: "\<not> crisis_condition b2 ?W"
    by (simp add: crisis_condition_def e2 Let_def)
  have cond3: "crisis_condition b3 ?W"
    using s3
    by (simp add: crisis_condition_def compute_effective_interest_rate_def contagion [OF id1(4)]
        e3 Let_def min_def)
  have f0: "debt_crisis_this_step ?a0 \<noteq> Some True" by (simp add: sample_agent_def)
  have f1: "debt_crisis_this_step a1 = Some True" by (simp add: a1_def debt_crisis_shock_def)
  have f2: "debt_crisis_this_step b2 = Some True" by (simp add: b2_def sample_repay_def f1)
  have f3: "debt_crisis_this_step b3 = Some False"
    by (simp add: b3_def a2_def sample_borrow_def)
  have c0: "check_debt_crisis ?a0 ?W = a1"
    using cond0 f0 by (simp add: check_debt_crisis_def a1_def)
  have c1: "check_debt_crisis a1 ?W = a1"
    using cond1 f1 by (simp add: check_debt_crisis_def)
  have c2: "check_debt_crisis b2 ?W = a2"
    using cond2 f2 by (simp add: check_debt_crisis_def a2_def)
  have run: "?run = [(?a0, ?W, a1), (a1, ?W, a1), (b2, ?W, a2), (b3, ?W, check_debt_crisis b3 ?W)]"
    by (simp add: sample_steps_def Let_def c0 c1 c2 b2_def [symmetric] b3_def [symmetric])
  have pres: "\<forall>(env, w) \<in> set sample_steps. \<forall>a. debt_crisis_this_step (env a) = debt_crisis_this_step a"
    by (simp add: sample_steps_def sample_repay_def sample_borrow_def)
  have len: "0 < length sample_steps" "1 < length sample_steps" "2 < length sample_steps"
    "3 < length sample_steps"
    by (simp_all add: sample_steps_def)
  have n0: "?run ! 0 = (?a0, ?W, a1)" and n1: "?run ! 1 = (a1, ?W, a1)"
    and n2: "?run ! 2 = (b2, ?W, a2)" and n3: "?run ! 3 = (b3, ?W, check_debt_crisis b3 ?W)"
    by (simp_all add: run)
  have r0: "a1 = debt_crisis_shock ?a0"
    using debt_crisis_once_per_period [OF pres f0 len(1) n0, of ?a0 ?W ?a0] cond0 by simp
  have r1: "a1 = a1"
    using debt_crisis_once_per_period [OF pres f0 len(2) n1, of ?a0 ?W a1] n0 cond0 cond1 by simp
  have r3: "check_debt_crisis b3 ?W = debt_crisis_shock b3
            \<and> public_debt (economy (debt_crisis_shock b3)) = public_debt (economy b3) * (6 / 10)"
    using debt_crisis_once_per_period [OF pres f0 len(4) n3, of b2 ?W a2] n2 cond2 cond3 by auto
  show ?thesis
    unfolding Let_def n0 n1 n2 n3 fst_conv snd_conv
    using r0 r1 r3 cond0 cond1 cond2 cond3 e3 by simp
qed

section \<open>Properties of the sanction resolution\<close>

lemma dict_get_absent:
  assumes "k \<notin> fst ` set d"
  shows "dict_get d k dflt = dflt"
proof -
  from assms have "map_of d k = None" by (simp add: map_of_eq_None_iff)
  then show ?thesis by (simp add: dict_get_def)
qed

lemma resolve_sanctions_loop_maps:
  assumes "resolve_sanctions_loop w aid a intents ts na ny = (na', ny')"
  shows "map_of na' t =
           (if t \<in> set ts then
              (case resolve_sanction_target w aid a intents t of
                 None \<Rightarrow> map_of na t | Some (ty, y) \<Rightarrow> Some ty)
            else map_of na t)
       \<and> map_of ny' t =
           (if t \<in> set ts then
              (case resolve_sanction_target w aid a intents t of
                 None \<Rightarrow> map_of ny t | Some (ty, y) \<Rightarrow> Some y)
            else map_of ny t)"
  using assms
proof (induction ts arbitrary: na ny)
  case Nil
  then show ?case by simp
next
  case (Cons x ts)
  show ?case
  proof (cases "resolve_sanction_target w aid a intents x")
    case None
    with Cons.prems have "resolve_sanctions_loop w aid a intents ts na ny = (na', ny')" by simp
    from Cons.IH [OF this] None show ?thesis by (auto split: option.splits)
  next
    case (Some r)
    obtain ty y where r: "r = (ty, y)" by (cases r)
    with Cons.prems Some
    have "resolve_sanctions_loop w aid a intents ts (AList.update x ty na) (AList.update x y ny) = (na', ny')"
      by simp
    from Cons.IH [OF this] Some r show ?thesis
      by (auto simp: update_conv' split: option.splits)
  qed
qed

lemma resolve_sanction_target_off_targets:
  assumes "t \<notin> fst ` set intents" "t \<notin> fst ` set (active_sanctions a)"
  shows "resolve_sanction_target w aid a intents t = None"
proof -
  have "dict_get intents t ''none'' = ''none''" using assms(1) by (rule dict_get_absent)
  moreover have "map_of (active_sanctions a) t = None"
    using assms(2) by (simp add: map_of_eq_None_iff)
  ultimately show ?thesis by (simp add: resolve_sanction_target_def Let_def)
qed

lemma resolve_sanctions_actor_maps:
  "map_of (active_sanctions (resolve_sanctions_actor w actions aid a)) t
     = map_option fst (resolve_sanction_target w aid a (intent_map_sanctions (map_of actions aid)) t)
   \<and> map_of (sanction_years (resolve_sanctions_actor w actions aid a)) t
     = map_option snd (resolve_sanction_target w aid a (intent_map_sanctions (map_of actions aid)) t)"
proof -
  let ?intents = "intent_map_sanctions (map_of actions aid)"
  let ?ts = "remdups (map fst ?intents @ map fst (active_sanctions a))"
  obtain na ny where loop: "resolve_sanctions_loop w aid a ?intents ?ts [] [] = (na, ny)"
    by (cases "resolve_sanctions_loop w aid a ?intents ?ts [] []")
  then have res: "active_sanctions (resolve_sanctions_actor w actions aid a) = na"
    "sanction_years (resolve_sanctions_actor w actions aid a) = ny"
    by (simp_all add: resolve_sanctions_actor_def Let_def)
  show ?thesis
  proof (cases "t \<in> set ?ts")
    case True
    with resolve_sanctions_loop_maps [OF loop, of t] res show ?thesis
      by (auto split: option.splits)
  next
    case False
    then have "t \<notin> fst ` set ?intents" "t \<notin> fst ` set (active_sanctions a)" by auto
    then have "resolve_sanction_target w aid a ?intents t = None"
      by (rule resolve_sanction_target_off_targets)
    with resolve_sanctions_loop_maps [OF loop, of t] False res show ?thesis by simp
  qed
qed

lemma map_of_map_entries:
  "map_of (map (\<lambda>(k, v). (k, f k v)) xs) k = map_option (f k) (map_of xs k)"
  by (induction xs) auto

lemma resolve_sanctions_agents:
  "map_of (agents (resolve_sanctions w actions)) aid
     = map_option (resolve_sanctions_actor w actions aid) (map_of (agents w) aid)"
  by (simp add: resolve_sanctions_def map_of_map_entries)

lemma resolve_sanctions_no_intent:
  assumes actor: "map_of (agents w) actor = Some a"
    and valid: "t \<noteq> actor" "map_of (agents w) t \<noteq> None"
    and quiet: "dict_get (intent_map_sanctions (map_of actions actor)) t ''none'' = ''none''"
  shows "\<exists>a'. map_of (agents (resolve_sanctions w actions)) actor = Some a'
          \<and> map_of (active_sanctions a') t =
              (case map_of (active_sanctions a) t of
                 None \<Rightarrow> None
               | Some ty \<Rightarrow> if ty \<noteq> [] \<and> 0 < dict_get (sanction_years a) t 0 then Some ty else None)
          \<and> map_of (sanction_years a') t =
              (case map_of (active_sanctions a) t of
                 None \<Rightarrow> None
               | Some ty \<Rightarrow> if ty \<noteq> [] \<and> 0 < dict_get (sanction_years a) t 0
                           then Some (dict_get (sanction_years a) t 0 - 1) else None)"
proof -
  let ?a' = "resolve_sanctions_actor w actions actor a"
  have look: "map_of (agents (resolve_sanctions w actions)) actor = Some ?a'"
    using actor by (simp add: resolve_sanctions_agents)
  have target: "resolve_sanction_target w actor a (intent_map_sanctions (map_of actions actor)) t =
          (case map_of (active_sanctions a) t of
             None \<Rightarrow> None
           | Some ty \<Rightarrow> if ty \<noteq> [] \<and> 0 < dict_get (sanction_years a) t 0
                       then Some (ty, dict_get (sanction_years a) t 0 - 1) else None)"
    using valid quiet by (auto simp: resolve_sanction_target_def Let_def)
  show ?thesis
    using look resolve_sanctions_actor_maps [of w actions actor a t] target
    by (auto split: option.splits)
qed

lemma sanction_run_absent:
  assumes "\<forall>(env, actions) \<in> set steps. sanction_bystander env actor t \<and> no_sanction_intent actions actor t"
    and "map_of (agents w0) actor = Some a0" "t \<noteq> actor" "map_of (agents w0) t \<noteq> None"
    and "map_of (active_sanctions a0) t = None"
  shows "\<exists>a. map_of (agents (sanction_run steps w0)) actor = Some a
           \<and> map_of (active_sanctions a) t = None"
  using assms
proof (induction steps arbitrary: w0 a0)
  case Nil
  then show ?case by simp
next
  case (Cons step rest)
  obtain env actions where step: "step = (env, actions)" by (cases step)
  from Cons.prems(1) step have calm: "sanction_bystander env actor t"
    and quiet: "no_sanction_intent actions actor t"
    and rest: "\<forall>(env, actions) \<in> set rest. sanction_bystander env actor t \<and> no_sanction_intent actions actor t"
    by auto
  from calm Cons.prems(2,4) obtain a1 where
    a1: "map_of (agents (env w0)) actor = Some a1" "active_sanctions a1 = active_sanctions a0"
    and t1: "map_of (agents (env w0)) t \<noteq> None"
    unfolding sanction_bystander_def by blast
  from resolve_sanctions_no_intent [OF a1(1) Cons.prems(3) t1 quiet [unfolded no_sanction_intent_def]]
  obtain a2 where a2: "map_of (agents (resolve_sanctions (env w0) actions)) actor = Some a2"
    "map_of (active_sanctions a2) t = None"
    using a1(2) Cons.prems(5) by auto
  have t2: "map_of (agents (resolve_sanctions (env w0) actions)) t \<noteq> None"
    using t1 by (simp add: resolve_sanctions_agents)
  from Cons.IH [OF rest a2(1) Cons.prems(3) t2 a2(2)] step show ?case by simp
qed

lemma sanction_run_counts_down:
  assumes "\<forall>(env, actions) \<in> set steps. sanction_bystander env actor t \<and> no_sanction_intent actions actor t"
    and "map_of (agents w0) actor = Some a0" "t \<noteq> actor" "map_of (agents w0) t \<noteq> None"
    and "map_of (active_sanctions a0) t = Some ty" "ty \<noteq> []"
    and "dict_get (sanction_years a0) t 0 = k" "0 \<le> k"
  shows "\<exists>a. map_of (agents (sanction_run steps w0)) actor = Some a
           \<and> (if int (length steps) \<le> k
               then map_of (active_sanctions a) t = Some ty
                    \<and> dict_get (sanction_years a) t 0 = k - int (length steps)
               else map_of (active_sanctions a) t = None)"
  using assms
proof (induction steps arbitrary: w0 a0 k)
  case Nil
  then show ?case by simp
next
  case (Cons step rest)
  obtain env actions where step: "step = (env, actions)" by (cases step)
  from Cons.prems(1) step have calm: "sanction_bystander env actor t"
    and quiet: "no_sanction_intent actions actor t"
    and rest: "\<forall>(env, actions) \<in> set rest. sanction_bystander env actor t \<and> no_sanction_intent actions actor t"
    by auto
  from calm Cons.prems(2,4) obtain a1 where
    a1: "map_of (agents (env w0)) actor = Some a1" "active_sanctions a1 = active_sanctions a0"
      "sanction_years a1 = sanction_years a0"
    and t1: "map_of (agents (env w0)) t \<noteq> None"
    unfolding sanction_bystander_def by blast
  let ?w2 = "resolve_sanctions (env w0) actions"
  from resolve_sanctions_no_intent [OF a1(1) Cons.prems(3) t1 quiet [unfolded no_sanction_intent_def]]
  obtain a2 where a2: "map_of (agents ?w2) actor = Some a2"
    and act2: "map_of (active_sanctions a2) t = (if 0 < k then Some ty else None)"
    and yrs2: "map_of (sanction_years a2) t = (if 0 < k then Some (k - 1) else None)"
    using a1(2,3) Cons.prems(5,6,7) by auto
  have t2: "map_of (agents ?w2) t \<noteq> None"
    using t1 by (simp add: resolve_sanctions_agents)
  show ?case
  proof (cases "0 < k")
    case True
    with act2 yrs2 have "map_of (active_sanctions a2) t = Some ty" "dict_get (sanction_years a2) t 0 = k - 1"
      by (simp_all add: dict_get_def)
    moreover from True have "0 \<le> k - 1" by simp
    ultimately have "\<exists>a. map_of (agents (sanction_run rest ?w2)) actor = Some a
           \<and> (if int (length rest) \<le> k - 1
               then map_of (active_sanctions a) t = Some ty
                    \<and> dict_get (sanction_years a) t 0 = k - 1 - int (length rest)
               else map_of (active_sanctions a) t = None)"
      using Cons.IH [OF rest a2 Cons.prems(3) t2 _ Cons.prems(6)] by blast
    then
    obtain a where "map_of (agents (sanction_run rest ?w2)) actor = Some a"
      "if int (length rest) \<le> k - 1
       then map_of (active_sanctions a) t = Some ty
            \<and> dict_get (sanction_years a) t 0 = k - 1 - int (length rest)
       else map_of (active_sanctions a) t = None" by blast
    then show ?thesis using step by (auto split: if_splits)
  next
    case False
    with act2 have "map_of (active_sanctions a2) t = None" by simp
    from sanction_run_absent [OF rest a2 Cons.prems(3) t2 this]
    obtain a where "map_of (agents (sanction_run rest ?w2)) actor = Some a"
      "map_of (active_sanctions a) t = None" by blast
    then show ?thesis using step False by auto
  qed
qed

text \<open>
  Claim C5. Let an actor hold an active sanction of type \<open>ty\<close> against a valid target with
  a remaining-years counter \<open>k\<close> of at least \<open>min_duration\<close> (2), as \<open>resolve_sanctions\<close>
  records it. In every run of further calls in which the actor submits no sanction intent
  against the target, the sanction is still active, with its type, after each of the first
  \<open>k\<close> calls, so after each of the first \<open>min_duration\<close> calls; the counter has gone down
  by exactly one per call; and after more than \<open>k\<close> calls the sanction is dropped.
\<close>

theorem sanction_hysteresis:
  assumes "\<forall>(env, actions) \<in> set steps. sanction_bystander env actor t \<and> no_sanction_intent actions actor t"
    and "map_of (agents w0) actor = Some a0" "t \<noteq> actor" "map_of (agents w0) t \<noteq> None"
    and "map_of (active_sanctions a0) t = Some ty" "ty \<noteq> []"
    and "dict_get (sanction_years a0) t 0 = k" "min_duration \<le> k"
  shows "\<exists>a. map_of (agents (sanction_run steps w0)) actor = Some a
           \<and> (int (length steps) \<le> min_duration \<longrightarrow> map_of (active_sanctions a) t = Some ty)
           \<and> (int (length steps) \<le> k \<longrightarrow>
                 map_of (active_sanctions a) t = Some ty
                 \<and> dict_get (sanction_years a) t 0 = k - int (length steps))
           \<and> (k < int (length steps) \<longrightarrow> map_of (active_sanctions a) t = None)"
proof -
  from assms(8) have "0 \<le> k" by (simp add: min_duration_def)
  from sanction_run_counts_down [OF assms(1-7) this] obtain a where
    "map_of (agents (sanction_run steps w0)) actor = Some a"
    "if int (length steps) \<le> k
     then map_of (active_sanctions a) t = Some ty
          \<and> dict_get (sanction_years a) t 0 = k - int (length steps)
     else map_of (active_sanctions a) t = None" by blast
  with assms(8) show ?thesis by (auto split: if_splits)
qed

lemma py_strip_sample: "py_strip ''B'' = ''B''"
  by (simp add: py_strip_def py_isspace_def)

lemma mild_intents: "intent_map_sanctions (map_of mild_actions ''A'') = [(''B'', ''mild'')]"
  by (simp add: intent_map_sanctions_def mild_actions_def sample_action_def py_strip_sample
      dict_get_def Let_def)

lemma strong_intents: "intent_map_sanctions (map_of strong_actions ''A'') = [(''B'', ''strong'')]"
  by (simp add: intent_map_sanctions_def strong_actions_def sample_action_def py_strip_sample
      dict_get_def Let_def)

lemma sample_support_mild:
  "sanction_support (sample_agent ''A'') (sample_agent ''B'') sample_relation ''mild'' = 36 / 100"
  by (simp add: sanction_support_def sample_agent_def sample_relation_def clamp01_def Let_def)

lemma sample_mild_target:
  "resolve_sanction_target sample_world ''A'' (sample_agent ''A'') [(''B'', ''mild'')] ''B''
     = Some (''mild'', 2)"
proof -
  have "map_of (agents sample_world) ''B'' = Some (sample_agent ''B'')"
    "map_of (relations_of sample_world ''A'') ''B'' = Some sample_relation"
    by (simp_all add: sample_world_def relations_of_def)
  moreover have "map_of (active_sanctions (sample_agent ''A'')) ''B'' = None"
    "dict_get (sanction_years (sample_agent ''A'')) ''B'' 0 = 0"
    by (simp_all add: sample_agent_def dict_get_def)
  ultimately show ?thesis
    by (simp add: resolve_sanction_target_def Let_def dict_get_def sample_support_mild
        desired_sanction_type_def severity_def min_duration_def)
qed

theorem sanction_hysteresis_witness:
  "(case map_of (agents (resolve_sanctions sample_world mild_actions)) ''A'' of
      None \<Rightarrow> False
    | Some a0 \<Rightarrow> map_of (active_sanctions a0) ''B'' = Some ''mild''
                \<and> dict_get (sanction_years a0) ''B'' 0 = 2)
   \<and> (case map_of (agents (sanction_run [(\<lambda>w. w, []), (\<lambda>w. w, [])]
                              (resolve_sanctions sample_world mild_actions))) ''A'' of
         None \<Rightarrow> False
       | Some a \<Rightarrow> map_of (active_sanctions a) ''B'' = Some ''mild''
                  \<and> dict_get (sanction_years a) ''B'' 0 = 0)
   \<and> (case map_of (agents (sanction_run [(\<lambda>w. w, []), (\<lambda>w. w, []), (\<lambda>w. w, [])]
                              (resolve_sanctions sample_world mild_actions))) ''A'' of
         None \<Rightarrow> False
       | Some a \<Rightarrow> map_of (active_sanctions a) ''B'' = None)"
proof -
  let ?w0 = "resolve_sanctions sample_world mild_actions"
  let ?a0 = "resolve_sanctions_actor sample_world mild_actions ''A'' (sample_agent ''A'')"
  have a0: "map_of (agents ?w0) ''A'' = Some ?a0"
    by (simp add: resolve_sanctions_agents sample_world_def)
  have b0: "map_of (agents ?w0) ''B'' \<noteq> None"
    by (simp add: resolve_sanctions_agents sample_world_def)
  have act: "map_of (active_sanctions ?a0) ''B'' = Some ''mild''"
    and yrs: "dict_get (sanction_years ?a0) ''B'' 0 = 2"
    using resolve_sanctions_actor_maps [of sample_world mild_actions "''A''" "sample_agent ''A''" "''B''"]
    by (simp_all add: mild_intents sample_mild_target dict_get_def)
  have quiet: "\<And>steps. set steps \<subseteq> {(\<lambda>w. w, [])} \<Longrightarrow>
      \<forall>(env, actions) \<in> set steps. sanction_bystander env ''A'' ''B'' \<and> no_sanction_intent actions ''A'' ''B''"
    by (auto simp: sanction_bystander_def no_sanction_intent_def intent_map_sanctions_def dict_get_def)
  have ne: "''B'' \<noteq> ''A''" "''mild'' \<noteq> []" "min_duration \<le> 2"
    by (simp_all add: min_duration_def)
  have two: "\<exists>a. map_of (agents (sanction_run [(\<lambda>w. w, []), (\<lambda>w. w, [])] ?w0)) ''A'' = Some a
           \<and> map_of (active_sanctions a) ''B'' = Some ''mild''
           \<and> dict_get (sanction_years a) ''B'' 0 = 0"
    using sanction_hysteresis [OF quiet a0 ne(1) b0 act ne(2) yrs ne(3),
        of "[(\<lambda>w. w, []), (\<lambda>w. w, [])]"]
    by auto
  have three: "\<exists>a. map_of (agents (sanction_run [(\<lambda>w. w, []), (\<lambda>w. w, []), (\<lambda>w. w, [])] ?w0)) ''A'' = Some a
           \<and> map_of (active_sanctions a) ''B'' = None"
    using sanction_hysteresis [OF quiet a0 ne(1) b0 act ne(2) yrs ne(3),
        of "[(\<lambda>w. w, []), (\<lambda>w. w, []), (\<lambda>w. w, [])]"]
    by auto
  from two three a0 act yrs show ?thesis by auto
qed

lemma resolve_sanction_target_intent:
  assumes "t \<noteq> actor" "map_of (agents w) t = Some target"
    and "map_of (relations_of w actor) t = Some relation"
    and "dict_get intents t ''none'' = intent" "intent = ''mild'' \<or> intent = ''strong''"
  shows "resolve_sanction_target w actor a intents t =
           (if 35 / 100 \<le> sanction_support a target relation intent
            then Some (intent, max (dict_get (sanction_years a) t 0) min_duration)
            else (case map_of (active_sanctions a) t of
                    None \<Rightarrow> None
                  | Some ty \<Rightarrow> if ty \<noteq> [] \<and> 0 < dict_get (sanction_years a) t 0
                              then Some (ty, dict_get (sanction_years a) t 0 - 1) else None))"
  using assms
  by (auto simp: resolve_sanction_target_def Let_def desired_sanction_type_def severity_def)

text \<open>
  Claim C6, as the code has it. For an actor with a mild or strong sanction intent against
  another agent of the world to which it has a relation: when the support score reaches
  0.35, the sanction recorded for the target has exactly the intended type (a stronger
  type suggested by the score is cut back to the intent, a weaker one is raised to it), with
  a counter of at least \<open>min_duration\<close>; when the support score is below 0.35 the intent
  records nothing, and the target keeps an existing sanction with a positive counter, of
  whatever type and with its counter one lower, or has none.
\<close>

theorem sanction_intent_floor:
  assumes "map_of (agents w) actor = Some a"
    and "t \<noteq> actor" "map_of (agents w) t = Some target"
    and "map_of (relations_of w actor) t = Some relation"
    and "dict_get (intent_map_sanctions (map_of actions actor)) t ''none'' = intent"
    and "intent = ''mild'' \<or> intent = ''strong''"
  shows "\<exists>a'. map_of (agents (resolve_sanctions w actions)) actor = Some a'
          \<and> (35 / 100 \<le> sanction_support a target relation intent \<longrightarrow>
                map_of (active_sanctions a') t = Some intent
                \<and> map_of (sanction_years a') t = Some (max (dict_get (sanction_years a) t 0) min_duration))
          \<and> (sanction_support a target relation intent < 35 / 100 \<longrightarrow>
                map_of (active_sanctions a') t =
                  (case map_of (active_sanctions a) t of
                     None \<Rightarrow> None
                   | Some ty \<Rightarrow> if ty \<noteq> [] \<and> 0 < dict_get (sanction_years a) t 0
                               then Some ty else None)
                \<and> map_of (sanction_years a') t =
                  (case map_of (active_sanctions a) t of
                     None \<Rightarrow> None
                   | Some ty \<Rightarrow> if ty \<noteq> [] \<and> 0 < dict_get (sanction_years a) t 0
                               then Some (dict_get (sanction_years a) t 0 - 1) else None))"
proof -
  let ?a' = "resolve_sanctions_actor w actions actor a"
  have look: "map_of (agents (resolve_sanctions w actions)) actor = Some ?a'"
    using assms(1) by (simp add: resolve_sanctions_agents)
  note target = resolve_sanction_target_intent [OF assms(2-6), of a]
  show ?thesis
    using look resolve_sanctions_actor_maps [of w actions actor a t] target
    by (auto split: option.splits)
qed


theorem sanction_intent_floor_witness:
  "dict_get (intent_map_sanctions (map_of mild_actions ''A'')) ''B'' ''none'' = ''mild''
   \<and> 35 / 100 \<le> sanction_support (sample_agent ''A'') (sample_agent ''B'') sample_relation ''mild''
   \<and> (case map_of (agents (resolve_sanctions sample_world mild_actions)) ''A'' of
         None \<Rightarrow> False
       | Some a' \<Rightarrow> map_of (active_sanctions a') ''B'' = Some ''mild''
                   \<and> map_of (sanction_years a') ''B'' = Some 2)
   \<and> dict_get (intent_map_sanctions (map_of strong_actions ''A'')) ''B'' ''none'' = ''strong''
   \<and> sanction_support sanctioning_agent (sample_agent ''B'') (sample_relation\<lparr>trust := 9 / 10\<rparr>) ''strong''
         < 35 / 100
   \<and> (case map_of (agents (resolve_sanctions grudge_world strong_actions)) ''A'' of
         None \<Rightarrow> False
       | Some a' \<Rightarrow> map_of (active_sanctions a') ''B'' = Some ''mild''
                   \<and> map_of (sanction_years a') ''B'' = Some 1)"
proof -
  have h1: "map_of (agents sample_world) ''A'' = Some (sample_agent ''A'')"
    and h3: "map_of (agents sample_world) ''B'' = Some (sample_agent ''B'')"
    and h4: "map_of (relations_of sample_world ''A'') ''B'' = Some sample_relation"
    by (simp_all add: sample_world_def relations_of_def)
  have h2: "''B'' \<noteq> ''A''" by simp
  have h5: "dict_get (intent_map_sanctions (map_of mild_actions ''A'')) ''B'' ''none'' = ''mild''"
    by (simp add: mild_intents dict_get_def)
  have h6: "''mild'' = ''mild'' \<or> ''mild'' = ''strong''" by simp
  have yrs: "dict_get (sanction_years (sample_agent ''A'')) ''B'' 0 = 0"
    by (simp add: sample_agent_def dict_get_def)
  have above: "case map_of (agents (resolve_sanctions sample_world mild_actions)) ''A'' of
         None \<Rightarrow> False
       | Some a' \<Rightarrow> map_of (active_sanctions a') ''B'' = Some ''mild''
                   \<and> map_of (sanction_years a') ''B'' = Some 2"
    using sanction_intent_floor [OF h1 h2 h3 h4 h5 h6]
    by (auto simp: sample_support_mild yrs min_duration_def)
  have g1: "map_of (agents grudge_world) ''A'' = Some sanctioning_agent"
    and g3: "map_of (agents grudge_world) ''B'' = Some (sample_agent ''B'')"
    and g4: "map_of (relations_of grudge_world ''A'') ''B'' = Some (sample_relation\<lparr>trust := 9 / 10\<rparr>)"
    by (simp_all add: grudge_world_def friendly_world_def relations_of_def)
  have g5: "dict_get (intent_map_sanctions (map_of strong_actions ''A'')) ''B'' ''none'' = ''strong''"
    by (simp add: strong_intents dict_get_def)
  have g6: "''strong'' = ''mild'' \<or> ''strong'' = ''strong''" by simp
  have support: "sanction_support sanctioning_agent (sample_agent ''B'')
                   (sample_relation\<lparr>trust := 9 / 10\<rparr>) ''strong'' = 32 / 100"
    by (simp add: sanction_support_def sanctioning_agent_def sample_agent_def sample_relation_def
        clamp01_def Let_def)
  have kept: "map_of (active_sanctions sanctioning_agent) ''B'' = Some ''mild''"
    "dict_get (sanction_years sanctioning_agent) ''B'' 0 = 2"
    by (simp_all add: sanctioning_agent_def dict_get_def)
  have below: "case map_of (agents (resolve_sanctions grudge_world strong_actions)) ''A'' of
         None \<Rightarrow> False
       | Some a' \<Rightarrow> map_of (active_sanctions a') ''B'' = Some ''mild''
                   \<and> map_of (sanction_years a') ''B'' = Some 1"
    using sanction_intent_floor [OF g1 h2 g3 g4 g5 g6]
    by (auto simp: support kept)
  from above below h5 g5 show ?thesis
    by (simp add: sample_support_mild support)
qed

theorem mild_intent_unrecorded_counterexample:
  "dict_get (intent_map_sanctions (map_of mild_actions ''A'')) ''B'' ''none'' = ''mild''
   \<and> map_of (agents friendly_world) ''B'' \<noteq> None
   \<and> map_option (\<lambda>a'. map_of (active_sanctions a') ''B'')
        (map_of (agents (resolve_sanctions friendly_world mild_actions)) ''A'') = Some None"
proof -
  have intent: "dict_get (intent_map_sanctions (map_of mild_actions ''A'')) ''B'' ''none'' = ''mild''"
    by (simp add: mild_intents dict_get_def)
  have ags: "map_of (agents friendly_world) ''A'' = Some (sample_agent ''A'')"
    "map_of (agents friendly_world) ''B'' = Some (sample_agent ''B'')"
    by (simp_all add: friendly_world_def sample_world_def)
  have rel: "map_of (relations_of friendly_world ''A'') ''B'' = Some (sample_relation\<lparr>trust := 9 / 10\<rparr>)"
    by (simp add: friendly_world_def relations_of_def)
  have support: "sanction_support (sample_agent ''A'') (sample_agent ''B'')
                   (sample_relation\<lparr>trust := 9 / 10\<rparr>) ''mild'' = 27 / 100"
    by (simp add: sanction_support_def sample_agent_def sample_relation_def clamp01_def Let_def)
  have none: "map_of (active_sanctions (sample_agent ''A'')) ''B'' = None"
    by (simp add: sample_agent_def)
  have "resolve_sanction_target friendly_world ''A'' (sample_agent ''A'')
          (intent_map_sanctions (map_of mild_actions ''A'')) ''B'' = None"
    using resolve_sanction_target_intent [OF _ ags(2) rel intent, of "sample_agent ''A''"]
    by (simp add: support none)
  then have "map_of (active_sanctions
                (resolve_sanctions_actor friendly_world mild_actions ''A'' (sample_agent ''A''))) ''B'' = None"
    using resolve_sanctions_actor_maps [of friendly_world mild_actions "''A''" "sample_agent ''A''" "''B''"]
    by simp
  with intent ags show ?thesis by (simp add: resolve_sanctions_agents)
qed

section \<open>Properties of the carbon cycle\<close>

lemma length_fit_timescales: "length (fit_timescales ts n) = n"
  by (simp add: fit_timescales_def)

lemma length_fitted_timescales:
  "length (fitted_timescales P) = length (normalize_fractions (carbon_pool_fractions P))"
  by (simp add: fitted_timescales_def length_fit_timescales)

lemma length_starting_pools:
  "length (starting_pools P g) = length (normalize_fractions (carbon_pool_fractions P))"
  by (simp add: starting_pools_def init_carbon_pools_def Let_def)

lemma starting_pools_stored:
  assumes "length (carbon_pools g) = length (normalize_fractions (carbon_pool_fractions P))"
  shows "starting_pools P g = carbon_pools g"
  using assms by (simp add: starting_pools_def Let_def)

lemma map_zip3_drop_middle:
  assumes "length xs = length ys" "length ys = length zs"
  shows "map (\<lambda>(x, y, z). f x z) (zip xs (zip ys zs)) = map (\<lambda>(x, z). f x z) (zip xs zs)"
  using assms by (induction xs ys zs rule: list_induct3) simp_all

lemma carbon_cycle_pools:
  "carbon_pools (carbon_cycle P w)
     = map (\<lambda>(pool, frac, tau). pool * pool_decay (dt P) tau + frac * total_emissions_of w)
         (zip (starting_pools P (global_state w))
              (zip (normalize_fractions (carbon_pool_fractions P)) (fitted_timescales P)))"
  by (simp add: carbon_cycle_def starting_pools_def fitted_timescales_def Let_def)

lemma carbon_cycle_zero_emissions:
  assumes zero: "total_emissions_of w = 0"
  shows "carbon_pools (carbon_cycle P w)
           = map (\<lambda>(pool, tau). pool * pool_decay (dt P) tau)
               (zip (starting_pools P (global_state w)) (fitted_timescales P))"
proof -
  have "carbon_pools (carbon_cycle P w)
          = map (\<lambda>(pool, frac, tau). pool * pool_decay (dt P) tau)
              (zip (starting_pools P (global_state w))
                   (zip (normalize_fractions (carbon_pool_fractions P)) (fitted_timescales P)))"
    unfolding carbon_cycle_pools zero by simp
  also have "\<dots> = map (\<lambda>(pool, tau). pool * pool_decay (dt P) tau)
                      (zip (starting_pools P (global_state w)) (fitted_timescales P))"
    by (rule map_zip3_drop_middle) (simp_all add: length_starting_pools length_fitted_timescales)
  finally show ?thesis .
qed

lemma carbon_cycle_co2:
  "co2 (carbon_cycle P w)
     = max (CO2_PREINDUSTRIAL_GT + sum_list (carbon_pools (carbon_cycle P w))) CO2_PREINDUSTRIAL_GT"
  by (simp add: carbon_cycle_def Let_def)

lemma update_global_climate_carbon:
  assumes "update_global_climate P w = Inr w'"
  shows "carbon_pools (global_state w') = carbon_pools (carbon_cycle P w)
       \<and> co2 (global_state w') = co2 (carbon_cycle P w)"
  using assms
  by (auto simp: update_global_climate_def energy_balance_def Let_def split: sum.splits if_splits)

lemma update_global_climate_emissions:
  assumes "update_global_climate P w = Inr w'"
  shows "total_emissions_of w' = total_emissions_of w"
proof -
  have same: "(\<lambda>(aid, agent). co2_annual_emissions (climate agent))
                \<circ> (\<lambda>(aid, agent). (aid, degrade_biodiversity x agent))
          = (\<lambda>(aid, agent). co2_annual_emissions (climate agent))" for x
    by (auto simp: fun_eq_iff degrade_biodiversity_def Let_def)
  from assms have "\<exists>x. agents w' = map (\<lambda>(aid, agent). (aid, degrade_biodiversity x agent)) (agents w)"
    unfolding update_global_climate_def Let_def
    by (cases "biodiversity_sums (agents w) 0 0") (auto simp del: map_eq_conv)
  then show ?thesis
    by (auto simp: total_emissions_of_def same)
qed

lemma pool_decay_nonneg: "0 \<le> pool_decay step tau"
  by (simp add: pool_decay_def split: timescale.splits)

lemma pool_decay_le_one: "0 \<le> step \<Longrightarrow> pool_decay step tau \<le> 1"
  by (simp add: pool_decay_def split: timescale.splits)

lemma climate_run_pools_stored:
  assumes "climate_run P n w = Inr w'"
    and "total_emissions_of w = 0"
    and "length (carbon_pools (global_state w)) = length (normalize_fractions (carbon_pool_fractions P))"
  shows "carbon_pools (global_state w')
           = map (\<lambda>(pool, tau). pool * pool_decay (dt P) tau ^ n)
               (zip (carbon_pools (global_state w)) (fitted_timescales P))"
  using assms
proof (induction n arbitrary: w)
  case 0
  then show ?case
    by (simp add: length_fitted_timescales map_idI split_def)
next
  case (Suc n)
  let ?pools = "carbon_pools (global_state w)"
  let ?ts = "fitted_timescales P"
  from Suc.prems(1) obtain w1 where
    one: "update_global_climate P w = Inr w1" and rest: "climate_run P n w1 = Inr w'"
    by (auto split: sum.splits)
  have pools1: "carbon_pools (global_state w1)
                  = map (\<lambda>(pool, tau). pool * pool_decay (dt P) tau) (zip ?pools ?ts)"
    using update_global_climate_carbon [OF one] carbon_cycle_zero_emissions [OF Suc.prems(2), of P]
      starting_pools_stored [OF Suc.prems(3)]
    by simp
  then have len1: "length (carbon_pools (global_state w1))
                     = length (normalize_fractions (carbon_pool_fractions P))"
    by (simp add: length_fitted_timescales Suc.prems(3))
  have zero1: "total_emissions_of w1 = 0"
    using update_global_climate_emissions [OF one] Suc.prems(2) by simp
  have "carbon_pools (global_state w')
          = map (\<lambda>(pool, tau). pool * pool_decay (dt P) tau ^ n)
              (zip (carbon_pools (global_state w1)) ?ts)"
    using Suc.IH [OF rest zero1 len1] .
  also have "\<dots> = map (\<lambda>(pool, tau). pool * pool_decay (dt P) tau ^ Suc n) (zip ?pools ?ts)"
    unfolding pools1
    by (rule nth_equalityI) (simp_all add: length_fitted_timescales Suc.prems(3))
  finally show ?case .
qed

lemma climate_run_pools:
  assumes run: "climate_run P n w = Inr w'"
    and zero: "total_emissions_of w = 0"
    and start: "0 < n \<or> length (carbon_pools (global_state w))
                            = length (normalize_fractions (carbon_pool_fractions P))"
  shows "carbon_pools (global_state w')
           = map (\<lambda>(pool, tau). pool * pool_decay (dt P) tau ^ n)
               (zip (starting_pools P (global_state w)) (fitted_timescales P))"
proof (cases "length (carbon_pools (global_state w))
                = length (normalize_fractions (carbon_pool_fractions P))")
  case True
  from climate_run_pools_stored [OF run zero True] starting_pools_stored [OF True]
  show ?thesis by simp
next
  case False
  with start obtain m where n: "n = Suc m" by (cases n) auto
  let ?start = "starting_pools P (global_state w)"
  let ?ts = "fitted_timescales P"
  from run n obtain w1 where
    one: "update_global_climate P w = Inr w1" and rest: "climate_run P m w1 = Inr w'"
    by (auto split: sum.splits)
  have pools1: "carbon_pools (global_state w1)
                  = map (\<lambda>(pool, tau). pool * pool_decay (dt P) tau) (zip ?start ?ts)"
    using update_global_climate_carbon [OF one] carbon_cycle_zero_emissions [OF zero, of P] by simp
  then have len1: "length (carbon_pools (global_state w1))
                     = length (normalize_fractions (carbon_pool_fractions P))"
    by (simp add: length_fitted_timescales length_starting_pools)
  have zero1: "total_emissions_of w1 = 0"
    using update_global_climate_emissions [OF one] zero by simp
  have "carbon_pools (global_state w')
          = map (\<lambda>(pool, tau). pool * pool_decay (dt P) tau ^ m)
              (zip (carbon_pools (global_state w1)) ?ts)"
    using climate_run_pools_stored [OF rest zero1 len1] .
  also have "\<dots> = map (\<lambda>(pool, tau). pool * pool_decay (dt P) tau ^ n) (zip ?start ?ts)"
    unfolding pools1 n
    by (rule nth_equalityI) (simp_all add: length_fitted_timescales length_starting_pools)
  finally show ?thesis .
qed

lemma update_global_climate_co2:
  assumes "update_global_climate P w = Inr w'"
  shows "co2 (global_state w')
           = max (CO2_PREINDUSTRIAL_GT + sum_list (carbon_pools (global_state w'))) CO2_PREINDUSTRIAL_GT"
  using update_global_climate_carbon [OF assms] carbon_cycle_co2 [of P w] by simp

lemma climate_run_co2:
  assumes "climate_run P n w = Inr w'" "0 < n"
  shows "co2 (global_state w')
           = max (CO2_PREINDUSTRIAL_GT + sum_list (carbon_pools (global_state w'))) CO2_PREINDUSTRIAL_GT"
  using assms
proof (induction n arbitrary: w)
  case 0
  then show ?case by simp
next
  case (Suc n)
  from Suc.prems(1) obtain w1 where
    one: "update_global_climate P w = Inr w1" and rest: "climate_run P n w1 = Inr w'"
    by (auto split: sum.splits)
  show ?case
  proof (cases n)
    case 0
    with rest have "w' = w1" by simp
    with update_global_climate_co2 [OF one] show ?thesis by simp
  next
    case (Suc m)
    with Suc.IH [OF rest] show ?thesis by simp
  qed
qed

lemma normalize_fractions_nonneg:
  assumes "\<forall>f \<in> set fractions. 0 \<le> f"
  shows "\<forall>f \<in> set (normalize_fractions fractions). 0 \<le> f"
  using assms by (auto simp: normalize_fractions_def Let_def)

lemma starting_pools_nonneg:
  assumes "\<forall>f \<in> set (carbon_pool_fractions P). 0 \<le> f"
    and "\<forall>p \<in> set (carbon_pools g). 0 \<le> p"
  shows "\<forall>p \<in> set (starting_pools P g). 0 \<le> p"
  using assms normalize_fractions_nonneg [OF assms(1)]
  by (auto simp: starting_pools_def init_carbon_pools_def Let_def)

lemma carbon_cycle_pools_nonneg:
  assumes fr: "\<forall>f \<in> set (carbon_pool_fractions P). 0 \<le> f"
    and pools: "\<forall>p \<in> set (carbon_pools (global_state w)). 0 \<le> p"
    and em: "0 \<le> total_emissions_of w"
  shows "\<forall>p \<in> set (carbon_pools (carbon_cycle P w)). 0 \<le> p"
proof -
  have "0 \<le> pool * pool_decay (dt P) tau + frac * total_emissions_of w"
    if "pool \<in> set (starting_pools P (global_state w))"
      "frac \<in> set (normalize_fractions (carbon_pool_fractions P))" for pool frac tau
    using that starting_pools_nonneg [OF fr pools] normalize_fractions_nonneg [OF fr]
      pool_decay_nonneg [of "dt P" tau] em
    by simp
  moreover have "pool \<in> set (starting_pools P (global_state w))
                 \<and> frac \<in> set (normalize_fractions (carbon_pool_fractions P))"
    if "(pool, frac, tau) \<in> set (zip (starting_pools P (global_state w))
              (zip (normalize_fractions (carbon_pool_fractions P)) (fitted_timescales P)))"
    for pool frac tau
    using set_zip_leftD [OF that] set_zip_leftD [OF set_zip_rightD [OF that]] by simp
  ultimately show ?thesis
    unfolding carbon_cycle_pools by fastforce
qed

lemma update_global_climate_co2_nonneg:
  assumes run: "update_global_climate P w = Inr w'"
    and fr: "\<forall>f \<in> set (carbon_pool_fractions P). 0 \<le> f"
    and pools: "\<forall>p \<in> set (carbon_pools (global_state w)). 0 \<le> p"
    and em: "0 \<le> total_emissions_of w"
  shows "co2 (global_state w') = CO2_PREINDUSTRIAL_GT + sum_list (carbon_pools (global_state w'))"
proof -
  have "\<forall>p \<in> set (carbon_pools (global_state w')). 0 \<le> p"
    using carbon_cycle_pools_nonneg [OF fr pools em] update_global_climate_carbon [OF run] by simp
  then have "0 \<le> sum_list (carbon_pools (global_state w'))" by (simp add: sum_list_nonneg)
  with update_global_climate_co2 [OF run] show ?thesis by simp
qed

lemma biodiversity_sums_returns:
  assumes "\<forall>(aid, agent) \<in> set ags. 0 \<le> population (economy agent)"
  shows "\<exists>r. biodiversity_sums ags tw wb = Inr r"
  using assms
proof (induction ags arbitrary: tw wb)
  case Nil
  then show ?case by simp
next
  case (Cons entry rest)
  obtain aid agent where entry: "entry = (aid, agent)" by (cases entry)
  with Cons.prems have "0 \<le> population (economy agent)" by simp
  then have "\<exists>weight. py_float_pow (population (economy agent)) (3 / 10) = Inr weight"
    by (simp add: py_float_pow_def)
  then obtain weight where "py_float_pow (population (economy agent)) (3 / 10) = Inr weight" ..
  moreover from Cons.prems have "\<forall>(aid, agent) \<in> set rest. 0 \<le> population (economy agent)" by simp
  ultimately show ?case using Cons.IH entry by simp
qed

lemma update_global_climate_returns:
  assumes "\<forall>(aid, agent) \<in> set (agents w). 0 \<le> population (economy agent)"
  shows "\<exists>w'. update_global_climate P w = Inr w'
              \<and> (\<forall>(aid, agent) \<in> set (agents w'). 0 \<le> population (economy agent))"
proof -
  from biodiversity_sums_returns [OF assms] obtain r where
    "biodiversity_sums (agents w) 0 0 = Inr r" by blast
  with assms show ?thesis
    by (cases r) (auto simp: update_global_climate_def Let_def degrade_biodiversity_def)
qed

lemma climate_run_returns:
  assumes "\<forall>(aid, agent) \<in> set (agents w). 0 \<le> population (economy agent)"
  shows "\<exists>w'. climate_run P n w = Inr w'"
  using assms
proof (induction n arbitrary: w)
  case 0
  then show ?case by simp
next
  case (Suc n)
  from update_global_climate_returns [OF Suc.prems] obtain w1 where
    "update_global_climate P w = Inr w1"
    "\<forall>(aid, agent) \<in> set (agents w1). 0 \<le> population (economy agent)" by blast
  with Suc.IH [of w1] show ?case by simp
qed

text \<open>
  Claim C2, as the code has it. Let total emissions be zero. After \<open>n\<close> calls of
  \<open>update_global_climate\<close> that return, every pool is the pool that the first call started
  from (the stored pool, or the pool initialised from \<open>co2\<close> by a call that finds the list
  without one pool per fraction) times the \<open>n\<close>-th power of its decay factor. The factor is
  \<open>exp (- dt / tau)\<close> for a finite positive time-constant \<open>tau\<close>; it is 1 for an infinite
  one (the first of the default constants, for which \<open>exp(-dt/inf)\<close> is 1 in floats) and
  for one that is not positive. After every call, whatever the emissions, \<open>co2\<close> is the
  larger of the pre-industrial baseline and the baseline plus the sum of the pools, so never
  below the baseline; it equals the baseline plus the sum of the pools when that sum is not
  negative, as it is when fractions, pools and emissions are not negative.
\<close>

theorem carbon_pools_decay:
  assumes "climate_run P n w = Inr w'"
    and "total_emissions_of w = 0"
    and "0 < n \<or> length (carbon_pools (global_state w))
                    = length (normalize_fractions (carbon_pool_fractions P))"
  shows "length (carbon_pools (global_state w')) = length (starting_pools P (global_state w))
       \<and> (\<forall>i < length (starting_pools P (global_state w)).
            carbon_pools (global_state w') ! i
              = starting_pools P (global_state w) ! i
                * pool_decay (dt P) (fitted_timescales P ! i) ^ n)
       \<and> (length (carbon_pools (global_state w)) = length (normalize_fractions (carbon_pool_fractions P))
            \<longrightarrow> starting_pools P (global_state w) = carbon_pools (global_state w))
       \<and> (\<forall>t. 0 < t \<longrightarrow> pool_decay (dt P) (Finite t) = exp (- dt P / t))
       \<and> (\<forall>t. t \<le> 0 \<longrightarrow> pool_decay (dt P) (Finite t) = 1)
       \<and> pool_decay (dt P) Infinite = 1
       \<and> (0 < n \<and> (\<forall>p \<in> set (starting_pools P (global_state w)). 0 \<le> p) \<longrightarrow>
            co2 (global_state w') = CO2_PREINDUSTRIAL_GT + sum_list (carbon_pools (global_state w')))
       \<and> (\<forall>P2 v v'. update_global_climate P2 v = Inr v' \<longrightarrow>
            co2 (global_state v')
              = max (CO2_PREINDUSTRIAL_GT + sum_list (carbon_pools (global_state v'))) CO2_PREINDUSTRIAL_GT
            \<and> CO2_PREINDUSTRIAL_GT \<le> co2 (global_state v')
            \<and> ((\<forall>f \<in> set (carbon_pool_fractions P2). 0 \<le> f)
                 \<and> (\<forall>p \<in> set (carbon_pools (global_state v)). 0 \<le> p)
                 \<and> 0 \<le> total_emissions_of v \<longrightarrow>
                 co2 (global_state v')
                   = CO2_PREINDUSTRIAL_GT + sum_list (carbon_pools (global_state v'))))"
proof -
  let ?start = "starting_pools P (global_state w)"
  let ?pools' = "carbon_pools (global_state w')"
  let ?ts = "fitted_timescales P"
  note pools = climate_run_pools [OF assms]
  have len: "length ?pools' = length ?start"
    unfolding pools by (simp add: length_fitted_timescales length_starting_pools)
  have nth: "\<forall>i < length ?start. ?pools' ! i = ?start ! i * pool_decay (dt P) (?ts ! i) ^ n"
    unfolding pools by (simp add: length_fitted_timescales length_starting_pools)
  have stored: "length (carbon_pools (global_state w)) = length (normalize_fractions (carbon_pool_fractions P))
            \<longrightarrow> ?start = carbon_pools (global_state w)"
    using starting_pools_stored by blast
  have decay: "\<forall>t. 0 < t \<longrightarrow> pool_decay (dt P) (Finite t) = exp (- dt P / t)"
    "\<forall>t. t \<le> 0 \<longrightarrow> pool_decay (dt P) (Finite t) = 1"
    "pool_decay (dt P) Infinite = 1"
    by (simp_all add: pool_decay_def)
  have nonneg: "(\<forall>p \<in> set ?start. 0 \<le> p) \<longrightarrow> 0 \<le> sum_list ?pools'"
  proof
    assume pos: "\<forall>p \<in> set ?start. 0 \<le> p"
    have "\<forall>x \<in> set ?pools'. 0 \<le> x"
      unfolding pools using pos pool_decay_nonneg
      by (auto dest!: set_zip_leftD)
    then show "0 \<le> sum_list ?pools'" by (simp add: sum_list_nonneg)
  qed
  have eq: "0 < n \<and> (\<forall>p \<in> set ?start. 0 \<le> p) \<longrightarrow>
            co2 (global_state w') = CO2_PREINDUSTRIAL_GT + sum_list ?pools'"
    using climate_run_co2 [OF assms(1)] nonneg by auto
  have every: "\<forall>P2 v v'. update_global_climate P2 v = Inr v' \<longrightarrow>
            co2 (global_state v')
              = max (CO2_PREINDUSTRIAL_GT + sum_list (carbon_pools (global_state v'))) CO2_PREINDUSTRIAL_GT
            \<and> CO2_PREINDUSTRIAL_GT \<le> co2 (global_state v')
            \<and> ((\<forall>f \<in> set (carbon_pool_fractions P2). 0 \<le> f)
                 \<and> (\<forall>p \<in> set (carbon_pools (global_state v)). 0 \<le> p)
                 \<and> 0 \<le> total_emissions_of v \<longrightarrow>
                 co2 (global_state v')
                   = CO2_PREINDUSTRIAL_GT + sum_list (carbon_pools (global_state v')))"
    using update_global_climate_co2 update_global_climate_co2_nonneg by auto
  from len nth stored decay eq every show ?thesis by blast
qed

lemma sample_world_populations:
  "\<forall>(aid, agent) \<in> set (agents sample_world). 0 \<le> population (economy agent)"
  by (simp add: sample_world_def sample_agent_def sample_economy_def)

lemma default_fractions:
  "normalize_fractions (carbon_pool_fractions default_climate_params)
     = [2173 / 10000, 2240 / 10000, 2824 / 10000, 2763 / 10000]"
  by (simp add: normalize_fractions_def default_climate_params_def CARBON_POOL_FRACTIONS_def Let_def)

lemma sample_starting_pools:
  assumes "carbon_pool_fractions P = carbon_pool_fractions default_climate_params"
    and "global_state w = sample_global"
  shows "starting_pools P (global_state w)
           = [1086 * (2173 / 10000), 1086 * (2240 / 10000), 1086 * (2824 / 10000), 1086 * (2763 / 10000)]"
  unfolding starting_pools_def assms default_fractions
  by (simp add: init_carbon_pools_def sample_global_def CO2_PREINDUSTRIAL_GT_def Let_def)

theorem carbon_pools_decay_witness:
  "\<exists>w'. climate_run default_climate_params 2 sample_world = Inr w'
     \<and> total_emissions_of sample_world = 0
     \<and> carbon_pools (global_state sample_world) = []
     \<and> carbon_pools (global_state w')
         = [1086 * (2173 / 10000),
            1086 * (2240 / 10000) * exp (- 1 / (3944 / 10)) ^ 2,
            1086 * (2824 / 10000) * exp (- 1 / (3654 / 100)) ^ 2,
            1086 * (2763 / 10000) * exp (- 1 / (4304 / 1000)) ^ 2]
     \<and> co2 (global_state w') = CO2_PREINDUSTRIAL_GT + sum_list (carbon_pools (global_state w'))"
proof -
  let ?P = "default_climate_params"
  from climate_run_returns [OF sample_world_populations] obtain w' where
    run: "climate_run ?P 2 sample_world = Inr w'" by blast
  have zero: "total_emissions_of sample_world = 0"
    by (simp add: total_emissions_of_def sample_world_def sample_agent_def)
  have empty: "carbon_pools (global_state sample_world) = []"
    by (simp add: sample_world_def sample_global_def)
  have n: "0 < (2::nat) \<or> length (carbon_pools (global_state sample_world))
                    = length (normalize_fractions (carbon_pool_fractions ?P))"
    by simp
  have start: "starting_pools ?P (global_state sample_world)
           = [1086 * (2173 / 10000), 1086 * (2240 / 10000), 1086 * (2824 / 10000), 1086 * (2763 / 10000)]"
    by (rule sample_starting_pools) (simp_all add: sample_world_def)
  have ts: "fitted_timescales ?P
              = [Infinite, Finite (3944 / 10), Finite (3654 / 100), Finite (4304 / 1000)]"
    unfolding fitted_timescales_def default_fractions
    by (simp add: fit_timescales_def default_climate_params_def CARBON_POOL_TIMESCALES_def)
  note dec = carbon_pools_decay [OF run zero n, unfolded start ts]
  from dec have l: "length (carbon_pools (global_state w'))
      = length [1086 * (2173 / 10000), 1086 * (2240 / 10000), 1086 * (2824 / 10000), 1086 * (2763 / 10000 :: real)]"
    by blast
  from dec have nth: "\<forall>i < length [1086 * (2173 / 10000), 1086 * (2240 / 10000), 1086 * (2824 / 10000),
                                 1086 * (2763 / 10000 :: real)].
      carbon_pools (global_state w') ! i
        = [1086 * (2173 / 10000), 1086 * (2240 / 10000), 1086 * (2824 / 10000), 1086 * (2763 / 10000)] ! i
          * pool_decay (dt ?P)
              ([Infinite, Finite (3944 / 10), Finite (3654 / 100), Finite (4304 / 1000)] ! i) ^ 2"
    by blast
  have dtP: "dt ?P = 1" by (simp add: default_climate_params_def)
  have e0: "carbon_pools (global_state w') ! 0 = 1086 * (2173 / 10000)"
    using nth [rule_format, of 0] by (simp add: dtP pool_decay_def)
  have e1: "carbon_pools (global_state w') ! Suc 0
              = 1086 * (2240 / 10000) * exp (- 1 / (3944 / 10)) ^ 2"
    using nth [rule_format, of "Suc 0"] by (simp add: dtP pool_decay_def)
  have e2: "carbon_pools (global_state w') ! Suc (Suc 0)
              = 1086 * (2824 / 10000) * exp (- 1 / (3654 / 100)) ^ 2"
    using nth [rule_format, of "Suc (Suc 0)"] by (simp add: dtP pool_decay_def)
  have e3: "carbon_pools (global_state w') ! Suc (Suc (Suc 0))
              = 1086 * (2763 / 10000) * exp (- 1 / (4304 / 1000)) ^ 2"
    using nth [rule_format, of "Suc (Suc (Suc 0))"] by (simp add: dtP pool_decay_def)
  have list: "carbon_pools (global_state w')
         = [1086 * (2173 / 10000),
            1086 * (2240 / 10000) * exp (- 1 / (3944 / 10)) ^ 2,
            1086 * (2824 / 10000) * exp (- 1 / (3654 / 100)) ^ 2,
            1086 * (2763 / 10000) * exp (- 1 / (4304 / 1000)) ^ 2]"
  proof (rule nth_equalityI)
    show "length (carbon_pools (global_state w'))
            = length [1086 * (2173 / 10000),
                      1086 * (2240 / 10000) * exp (- 1 / (3944 / 10)) ^ 2,
                      1086 * (2824 / 10000) * exp (- 1 / (3654 / 100)) ^ 2,
                      1086 * (2763 / 10000) * exp (- 1 / (4304 / 1000)) ^ 2]"
      using l by simp
  next
    fix i assume "i < length (carbon_pools (global_state w'))"
    with l have "i = 0 \<or> i = Suc 0 \<or> i = Suc (Suc 0) \<or> i = Suc (Suc (Suc 0))" by auto
    with e0 e1 e2 e3 show "carbon_pools (global_state w') ! i
            = [1086 * (2173 / 10000),
               1086 * (2240 / 10000) * exp (- 1 / (3944 / 10)) ^ 2,
               1086 * (2824 / 10000) * exp (- 1 / (3654 / 100)) ^ 2,
               1086 * (2763 / 10000) * exp (- 1 / (4304 / 1000)) ^ 2] ! i"
      by auto
  qed
  from dec have "co2 (global_state w') = CO2_PREINDUSTRIAL_GT + sum_list (carbon_pools (global_state w'))"
    by simp
  with run zero empty list show ?thesis by blast
qed

lemma net_sink_pools:
  "carbon_pools (carbon_cycle default_climate_params net_sink_world)
     = [1086 * (2173 / 10000) * pool_decay 1 Infinite + 2173 / 10000 * (- 5000),
        1086 * (2240 / 10000) * pool_decay 1 (Finite (3944 / 10)) + 2240 / 10000 * (- 5000),
        1086 * (2824 / 10000) * pool_decay 1 (Finite (3654 / 100)) + 2824 / 10000 * (- 5000),
        1086 * (2763 / 10000) * pool_decay 1 (Finite (4304 / 1000)) + 2763 / 10000 * (- 5000)]"
proof -
  let ?P = "default_climate_params"
  have start: "starting_pools ?P (global_state net_sink_world)
           = [1086 * (2173 / 10000), 1086 * (2240 / 10000), 1086 * (2824 / 10000), 1086 * (2763 / 10000)]"
    by (rule sample_starting_pools) (simp_all add: net_sink_world_def sample_world_def)
  have ts: "fitted_timescales ?P
              = [Infinite, Finite (3944 / 10), Finite (3654 / 100), Finite (4304 / 1000)]"
    unfolding fitted_timescales_def default_fractions
    by (simp add: fit_timescales_def default_climate_params_def CARBON_POOL_TIMESCALES_def)
  have em: "total_emissions_of net_sink_world = - 5000"
    by (simp add: total_emissions_of_def net_sink_world_def sample_agent_def)
  have dtP: "dt ?P = 1" by (simp add: default_climate_params_def)
  show ?thesis
    unfolding carbon_cycle_pools start ts default_fractions em dtP by simp
qed

theorem co2_not_baseline_plus_pools_counterexample:
  "(case update_global_climate default_climate_params net_sink_world of
      Inl e \<Rightarrow> False
    | Inr w' \<Rightarrow> co2 (global_state w') = 2184
               \<and> CO2_PREINDUSTRIAL_GT + sum_list (carbon_pools (global_state w')) < 2184)
   \<and> (case update_global_climate negative_tau_params sample_world of
         Inl e \<Rightarrow> False
       | Inr w' \<Rightarrow> total_emissions_of sample_world = 0
                  \<and> carbon_pools (global_state w') ! 0 = 1086 * (2173 / 10000)
                  \<and> carbon_pools (global_state w') ! 0
                      \<noteq> 1086 * (2173 / 10000) * exp (- dt negative_tau_params / (- 1)))"
proof -
  have sink: "case update_global_climate default_climate_params net_sink_world of
      Inl e \<Rightarrow> False
    | Inr w' \<Rightarrow> co2 (global_state w') = 2184
               \<and> CO2_PREINDUSTRIAL_GT + sum_list (carbon_pools (global_state w')) < 2184"
  proof -
    let ?P = "default_climate_params"
    have "\<forall>(aid, agent) \<in> set (agents net_sink_world). 0 \<le> population (economy agent)"
      by (simp add: net_sink_world_def sample_agent_def sample_economy_def)
    from update_global_climate_returns [OF this] obtain w' where
      run: "update_global_climate ?P net_sink_world = Inr w'" by blast
    have d: "pool_decay 1 Infinite \<le> 1" "pool_decay 1 (Finite (3944 / 10)) \<le> 1"
      "pool_decay 1 (Finite (3654 / 100)) \<le> 1" "pool_decay 1 (Finite (4304 / 1000)) \<le> 1"
      by (simp_all add: pool_decay_le_one)
    have "sum_list (carbon_pools (carbon_cycle ?P net_sink_world)) < 0"
      unfolding net_sink_pools using d by simp
    then have neg: "sum_list (carbon_pools (global_state w')) < 0"
      using update_global_climate_carbon [OF run] by simp
    with update_global_climate_co2 [OF run] run show ?thesis
      by (simp add: CO2_PREINDUSTRIAL_GT_def)
  qed
  have tau: "case update_global_climate negative_tau_params sample_world of
         Inl e \<Rightarrow> False
       | Inr w' \<Rightarrow> total_emissions_of sample_world = 0
                  \<and> carbon_pools (global_state w') ! 0 = 1086 * (2173 / 10000)
                  \<and> carbon_pools (global_state w') ! 0
                      \<noteq> 1086 * (2173 / 10000) * exp (- dt negative_tau_params / (- 1))"
  proof -
    let ?P = "negative_tau_params"
    from update_global_climate_returns [OF sample_world_populations] obtain w' where
      run: "update_global_climate ?P sample_world = Inr w'" by blast
    have zero: "total_emissions_of sample_world = 0"
      by (simp add: total_emissions_of_def sample_world_def sample_agent_def)
    have fr: "carbon_pool_fractions ?P = carbon_pool_fractions default_climate_params"
      by (simp add: negative_tau_params_def)
    have start: "starting_pools ?P (global_state sample_world)
           = [1086 * (2173 / 10000), 1086 * (2240 / 10000), 1086 * (2824 / 10000), 1086 * (2763 / 10000)]"
      by (rule sample_starting_pools) (simp_all add: fr sample_world_def)
    have ts: "fitted_timescales ?P
                = [Finite (- 1), Finite (3944 / 10), Finite (3654 / 100), Finite (4304 / 1000)]"
      unfolding fitted_timescales_def fr default_fractions
      by (simp add: fit_timescales_def negative_tau_params_def)
    have "carbon_pools (carbon_cycle ?P sample_world) ! 0 = 1086 * (2173 / 10000)"
      unfolding carbon_cycle_zero_emissions [OF zero] start ts
      by (simp add: pool_decay_def)
    then have first: "carbon_pools (global_state w') ! 0 = 1086 * (2173 / 10000)"
      using update_global_climate_carbon [OF run] by simp
    have "dt ?P = 1" by (simp add: negative_tau_params_def default_climate_params_def)
    moreover have "(1::real) < exp 1" by simp
    ultimately have "(1086 * (2173 / 10000) :: real)
                       \<noteq> 1086 * (2173 / 10000) * exp (- dt ?P / (- 1))"
      by simp
    with first run zero show ?thesis by simp
  qed
  from sink tau show ?thesis by blast
qed

section \<open>Properties of the war continuation\<close>




































end
